theory Spec2Isabelle
  imports Main "HOL-Library.Sublist"
begin

section \<open>Data model of package gcecloudprovider (gce.go)\<close>

text \<open>
  The Go structs \<open>ConfigGlobal\<close> and \<open>ConfigFile\<close>. A \<open>*ConfigFile\<close> is a
  \<open>ConfigFile option\<close>: \<open>None\<close> is the nil pointer that \<open>readConfig\<close> returns
  for an empty path.
\<close>

record ConfigGlobal =
  TokenURL :: string
  TokenBody :: string
  ProjectId :: string
  Zone :: string

record ConfigFile =
  Global :: ConfigGlobal

text \<open>
  \<open>googleapi.Error\<close> and its \<open>ErrorItem\<close>s, with the fields the package reads.
\<close>

record ErrorItem =
  Reason :: string
  Message :: string

record googleapi_Error =
  Code :: int
  Errors :: "ErrorItem list"

text \<open>
  Values of Go's \<open>error\<close> interface. The nil interface is \<open>None\<close> of
  \<open>error option\<close>. \<open>GoogleapiError p\<close> is an interface value of dynamic type
  \<open>*googleapi.Error\<close>, whose pointer \<open>p\<close> may itself be nil (\<open>None\<close>).
  \<open>Errorf prefix cause\<close> is the value \<open>fmt.Errorf\<close> builds from a format that
  ends in \<open>%v\<close> of \<open>cause\<close>; \<open>prefix\<close> is the formatted text before it.
\<close>

datatype error =
    ErrWaitTimeout
  | GoogleapiError "googleapi_Error option"
  | Errorf string error
  | OtherError string

text \<open>A call either returns or panics (a nil dereference).\<close>

datatype 'a outcome = Return 'a | Panic

text \<open>
  The caller's \<open>context.Context\<close>: the time at which it is cancelled, if ever.
\<close>

record Context =
  cancelAt :: "nat option"

text \<open>
  The three token sources the package constructs: \<open>NewAltTokenSource(url, body)\<close>,
  \<open>google.DefaultTokenSource(ctx, scopes...)\<close> and
  \<open>google.ComputeTokenSource(account, scopes...)\<close>. An \<open>oauth2.TokenSource\<close>
  interface value is a \<open>token_source option\<close>, \<open>None\<close> the nil interface.
\<close>

datatype token_source =
    AltTokenSource string string
  | DefaultTokenSource "string list"
  | ComputeTokenSource string "string list"

definition CloudPlatformScope :: string where
  "CloudPlatformScope = ''https://www.googleapis.com/auth/cloud-platform''"

definition ComputeScope :: string where
  "ComputeScope = ''https://www.googleapis.com/auth/compute''"

text \<open>
  \<open>oauth2.NewClient(ctx, src)\<close>, the two service handles with their user agent, and
  the provider, whose two service fields are pointers (\<open>None\<close> is nil).
\<close>

datatype http_client = NewClient Context "token_source option"

datatype compute_Service = ComputeService http_client string

datatype alpha_Service = AlphaService http_client string

record CloudProvider =
  service :: "compute_Service option"
  alphaService :: "alpha_Service option"
  project :: string
  zone :: string
  zonesCache :: "string \<rightharpoonup> string list"

section \<open>The world outside the package\<close>

text \<open>
  What the external calls answer. \<open>openFile\<close> is \<open>os.Open\<close> (the contents stand
  for the open reader); \<open>readInto\<close> is \<open>gcfg.FatalOnly(gcfg.ReadInto(cfg, reader))\<close>
  together with the \<open>cfg\<close> it filled; \<open>defaultCredentials\<close> is the error of
  \<open>google.DefaultTokenSource\<close>; \<open>lookupGAC\<close> is
  \<open>os.LookupEnv("GOOGLE_APPLICATION_CREDENTIALS")\<close>; \<open>onGCE\<close>,
  \<open>metadataProjectID\<close> and \<open>metadataZone\<close> are the calls of package metadata
  (\<open>metadata.OnGCE\<close> caches its answer, so both calls agree);
  \<open>tokenOf ts n\<close> is what the \<open>n\<close>-th call of \<open>ts.Token()\<close> returns;
  \<open>computeNew\<close> and \<open>alphaNew\<close> are the errors of \<open>compute.New\<close> and
  \<open>alpha.New\<close>.
\<close>

record env =
  openFile :: "string \<Rightarrow> error + string"
  readInto :: "string \<Rightarrow> error option \<times> ConfigFile"
  defaultCredentials :: "error option"
  lookupGAC :: "string option"
  onGCE :: bool
  metadataProjectID :: "error + string"
  metadataZone :: "error + string"
  tokenOf :: "token_source \<Rightarrow> nat \<Rightarrow> error + string"
  computeNew :: "http_client \<Rightarrow> error option"
  alphaNew :: "http_client \<Rightarrow> error option"
  GOOS :: string
  GOARCH :: string

text \<open>
  The effects, in the order they happen: entries into functions of the package
  (\<open>Call\<close>) and the external calls. \<open>TokenCall n t\<close> is the \<open>n\<close>-th call of
  \<open>Token()\<close>, made at time \<open>t\<close>; \<open>TickWait d\<close> is a wait of \<open>d\<close>
  time units for the poller's next tick.
\<close>

datatype event =
    Call string
  | OsOpen string
  | FileClose string
  | GcfgReadInto
  | NewAltTokenSource
  | GoogleDefaultTokenSource
  | GoogleComputeTokenSource
  | MetadataProjectID
  | MetadataOnGCE
  | MetadataZone
  | LookupEnv
  | TokenCall nat nat
  | TickWait nat
  | Oauth2NewClient
  | ComputeNew
  | AlphaNew

text \<open>
  The mutable state: the clock (only waiting for a tick advances it), the number of
  \<open>Token()\<close> calls made so far, the number of open file handles, and the trace.
\<close>

record world =
  now :: nat
  tokenCalls :: nat
  openHandles :: nat
  trace :: "event list"

definition emit :: "event \<Rightarrow> world \<Rightarrow> world" where
  "emit e w = w\<lparr>trace := trace w @ [e]\<rparr>"

section \<open>Error classification\<close>

text \<open>The loop \<open>for _, e := range apiErr.Errors\<close> of \<open>IsGCEError\<close>.\<close>

fun rangeErrors :: "ErrorItem list \<Rightarrow> string \<Rightarrow> bool" where
  "rangeErrors [] reason = False"
| "rangeErrors (e # es) reason = (if Reason e = reason then True else rangeErrors es reason)"

text \<open>
  \<open>err.(*googleapi.Error)\<close> succeeds exactly on interface values of that dynamic
  type, the nil pointer of that type included; reading \<open>apiErr.Errors\<close> through the
  nil pointer panics.
\<close>

definition IsGCEError :: "error option \<Rightarrow> string \<Rightarrow> bool outcome" where
  "IsGCEError err reason =
     (case err of
        Some (GoogleapiError apiErr) \<Rightarrow>
          (case apiErr of
             None \<Rightarrow> Panic
           | Some a \<Rightarrow> Return (rangeErrors (Errors a) reason))
      | _ \<Rightarrow> Return False)"

definition IsGCENotFoundError :: "error option \<Rightarrow> bool outcome" where
  "IsGCENotFoundError err = IsGCEError err ''notFound''"

definition IsGCEInvalidError :: "error option \<Rightarrow> bool outcome" where
  "IsGCEInvalidError err = IsGCEError err ''invalid''"

section \<open>readConfig\<close>

text \<open>
  \<open>defer reader.Close()\<close> is registered once \<open>os.Open\<close> has succeeded, so the
  handle is closed on both returns that follow it.
\<close>

definition readConfig ::
  "env \<Rightarrow> string \<Rightarrow> world \<Rightarrow> (ConfigFile option \<times> error option) \<times> world" where
  "readConfig e configPath w0 =
     (let w = emit (Call ''readConfig'') w0 in
      if configPath = [] then ((None, None), w)
      else
        (case openFile e configPath of
           Inl err \<Rightarrow>
             ((None, Some (Errorf (''couldn't open cloud provider configuration at ''
                                     @ configPath @ '': '') err)),
              emit (OsOpen configPath) w)
         | Inr reader \<Rightarrow>
             (let w1 = (emit (OsOpen configPath) w)\<lparr>openHandles := Suc (openHandles w)\<rparr>;
                  w2 = emit GcfgReadInto w1;
                  closed = (emit (FileClose configPath) w2)\<lparr>openHandles := openHandles w2 - 1\<rparr>
              in case readInto e reader of
                   (Some err, cfg) \<Rightarrow>
                     ((None, Some (Errorf (''couldn't read cloud provider configuration at ''
                                             @ configPath @ '': '') err)),
                      closed)
                 | (None, cfg) \<Rightarrow> ((Some cfg, None), closed))))"

section \<open>generateTokenSource\<close>

text \<open>
  The guard of the first branch,
  \<open>configFile != nil && configFile.Global.TokenURL != "" && configFile.Global.TokenURL != "nil"\<close>,
  with the two fields the branch then reads.
\<close>

definition definedTokenURL :: "ConfigFile option \<Rightarrow> (string \<times> string) option" where
  "definedTokenURL configFile =
     (case configFile of
        None \<Rightarrow> None
      | Some c \<Rightarrow>
          if TokenURL (Global c) \<noteq> [] \<and> TokenURL (Global c) \<noteq> ''nil''
          then Some (TokenURL (Global c), TokenBody (Global c))
          else None)"

text \<open>
  \<open>google.DefaultTokenSource(ctx, scopes...)\<close>: a token source and a nil error, or
  a nil token source and the error.
\<close>

definition googleDefaultTokenSource ::
  "env \<Rightarrow> string list \<Rightarrow> token_source option \<times> error option" where
  "googleDefaultTokenSource e scopes =
     (case defaultCredentials e of
        None \<Rightarrow> (Some (DefaultTokenSource scopes), None)
      | Some err \<Rightarrow> (None, Some err))"

text \<open>
  Both values of the Go result \<open>(tokenSource, err)\<close> are kept: the last
  \<open>return tokenSource, err\<close> returns the error of \<open>google.DefaultTokenSource\<close>
  whatever \<open>tokenSource\<close> has become. \<open>metadata.OnGCE()\<close> is called once as an
  argument of the log line and once more in the branch without the environment variable.
\<close>

definition generateTokenSource ::
  "env \<Rightarrow> Context \<Rightarrow> ConfigFile option \<Rightarrow> world
     \<Rightarrow> (token_source option \<times> error option) \<times> world" where
  "generateTokenSource e ctx configFile w0 =
     (let w = emit (Call ''generateTokenSource'') w0 in
      case definedTokenURL configFile of
        Some (url, body) \<Rightarrow>
          ((Some (AltTokenSource url body), None), emit NewAltTokenSource w)
      | None \<Rightarrow>
          (let (tokenSource, err) = googleDefaultTokenSource e [CloudPlatformScope, ComputeScope];
               w1 = emit MetadataOnGCE (emit MetadataProjectID (emit GoogleDefaultTokenSource w));
               w2 = emit LookupEnv w1
           in case lookupGAC e of
                Some gac \<Rightarrow> ((tokenSource, err), w2)
              | None \<Rightarrow>
                  if onGCE e
                  then ((Some (ComputeTokenSource [] [CloudPlatformScope]), err),
                        emit GoogleComputeTokenSource (emit MetadataOnGCE w2))
                  else ((tokenSource, err), emit MetadataOnGCE w2)))"

section \<open>newOauthClient and the token warm-up\<close>

text \<open>
  The closure passed to \<open>wait.PollImmediate\<close>: one call of \<open>tokenSource.Token()\<close>.
  An error is logged and answered \<open>(false, nil)\<close>, a token \<open>(true, nil)\<close>; the
  closure never returns an error of its own. Calling \<open>Token\<close> on the nil interface
  panics.
\<close>

definition fetchInitialToken ::
  "env \<Rightarrow> token_source option \<Rightarrow> world \<Rightarrow> (bool \<times> error option) outcome \<times> world" where
  "fetchInitialToken e tokenSource w =
     (case tokenSource of
        None \<Rightarrow> (Panic, w)
      | Some ts \<Rightarrow>
          (let w1 = (emit (TokenCall (tokenCalls w) (now w)) w)\<lparr>tokenCalls := Suc (tokenCalls w)\<rparr>
           in case tokenOf e ts (tokenCalls w) of
                Inl err \<Rightarrow> (Return (False, None), w1)
              | Inr tok \<Rightarrow> (Return (True, None), w1)))"

text \<open>
  Modelled from the spec: \<open>wait.PollImmediate(interval, timeout, condition)\<close> of the
  vendored package \<open>k8s.io/apimachinery/pkg/util/wait\<close> is not among the sources.
  The spec (4.3) says: the condition is polled on a fixed cadence, every \<open>interval\<close>,
  for up to the ceiling \<open>timeout\<close>; an attempt that is not yet ready is retried; on
  the first success the poll returns immediately; when the ceiling elapses without
  a success it fails (\<open>wait.ErrWaitTimeout\<close>). The first attempt is immediate, and an
  error or a panic of the condition ends the poll with it. The call site passes no
  context, so the poll has none to consult.

  \<open>pollTicks n\<close> is the poll with \<open>n\<close> ticks left before the ceiling; \<open>rest\<close>
  is the time between the last tick and the ceiling.
\<close>

fun pollTicks ::
  "nat \<Rightarrow> nat \<Rightarrow> nat \<Rightarrow> (world \<Rightarrow> (bool \<times> error option) outcome \<times> world) \<Rightarrow> world
     \<Rightarrow> error option outcome \<times> world" where
  "pollTicks 0 interval rest condition w =
     (Return (Some ErrWaitTimeout),
      if rest = 0 then w else (emit (TickWait rest) w)\<lparr>now := now w + rest\<rparr>)"
| "pollTicks (Suc n) interval rest condition w =
     (case condition ((emit (TickWait interval) w)\<lparr>now := now w + interval\<rparr>) of
        (Panic, w1) \<Rightarrow> (Panic, w1)
      | (Return (done, Some err), w1) \<Rightarrow> (Return (Some err), w1)
      | (Return (done, None), w1) \<Rightarrow>
          if done then (Return None, w1) else pollTicks n interval rest condition w1)"

definition PollImmediate ::
  "nat \<Rightarrow> nat \<Rightarrow> (world \<Rightarrow> (bool \<times> error option) outcome \<times> world) \<Rightarrow> world
     \<Rightarrow> error option outcome \<times> world" where
  "PollImmediate interval timeout condition w =
     (case condition w of
        (Panic, w1) \<Rightarrow> (Panic, w1)
      | (Return (done, Some err), w1) \<Rightarrow> (Return (Some err), w1)
      | (Return (done, None), w1) \<Rightarrow>
          if done then (Return None, w1)
          else pollTicks (timeout div interval) interval (timeout mod interval) condition w1)"

text \<open>
  \<open>newOauthClient\<close>: the warm-up with \<open>5*time.Second\<close> and \<open>30*time.Second\<close>
  (the time unit is the second), then \<open>oauth2.NewClient(ctx, tokenSource)\<close>. The
  context reaches only \<open>oauth2.NewClient\<close>.
\<close>

definition newOauthClient ::
  "env \<Rightarrow> Context \<Rightarrow> token_source option \<Rightarrow> world
     \<Rightarrow> (http_client option \<times> error option) outcome \<times> world" where
  "newOauthClient e ctx tokenSource w =
     (case PollImmediate 5 30 (fetchInitialToken e tokenSource) (emit (Call ''newOauthClient'') w) of
        (Panic, w1) \<Rightarrow> (Panic, w1)
      | (Return (Some err), w1) \<Rightarrow> (Return (None, Some err), w1)
      | (Return None, w1) \<Rightarrow>
          (Return (Some (NewClient ctx tokenSource), None), emit Oauth2NewClient w1))"

section \<open>The service clients\<close>

text \<open>\<open>fmt.Sprintf("GCE CSI Driver/%s (%s %s)", vendorVersion, runtime.GOOS, runtime.GOARCH)\<close>\<close>

definition userAgent :: "env \<Rightarrow> string \<Rightarrow> string" where
  "userAgent e vendorVersion =
     ''GCE CSI Driver/'' @ vendorVersion @ '' ('' @ GOOS e @ '' '' @ GOARCH e @ '')''"

text \<open>
  \<open>newOauthClient\<close> returns a non-nil client with a nil error; a nil client with
  a nil error would make \<open>compute.New\<close> and \<open>alpha.New\<close> fail, which is
  \<open>OtherError ''client is nil''\<close> here.
\<close>

definition createCloudServiceWithDefaultServiceAccount ::
  "env \<Rightarrow> Context \<Rightarrow> string \<Rightarrow> token_source option \<Rightarrow> world
     \<Rightarrow> (compute_Service option \<times> error option) outcome \<times> world" where
  "createCloudServiceWithDefaultServiceAccount e ctx vendorVersion tokenSource w0 =
     (case newOauthClient e ctx tokenSource
             (emit (Call ''createCloudServiceWithDefaultServiceAccount'') w0) of
        (Panic, w1) \<Rightarrow> (Panic, w1)
      | (Return (client, Some err), w1) \<Rightarrow> (Return (None, Some err), w1)
      | (Return (None, None), w1) \<Rightarrow>
          (Return (None, Some (OtherError ''client is nil'')), emit ComputeNew w1)
      | (Return (Some client, None), w1) \<Rightarrow>
          (case computeNew e client of
             Some err \<Rightarrow> (Return (None, Some err), emit ComputeNew w1)
           | None \<Rightarrow>
               (Return (Some (ComputeService client (userAgent e vendorVersion)), None),
                emit ComputeNew w1)))"

definition createCloudService ::
  "env \<Rightarrow> Context \<Rightarrow> string \<Rightarrow> token_source option \<Rightarrow> world
     \<Rightarrow> (compute_Service option \<times> error option) outcome \<times> world" where
  "createCloudService e ctx vendorVersion tokenSource w =
     createCloudServiceWithDefaultServiceAccount e ctx vendorVersion tokenSource
       (emit (Call ''createCloudService'') w)"

definition createAlphaCloudService ::
  "env \<Rightarrow> Context \<Rightarrow> string \<Rightarrow> token_source option \<Rightarrow> world
     \<Rightarrow> (alpha_Service option \<times> error option) outcome \<times> world" where
  "createAlphaCloudService e ctx vendorVersion tokenSource w0 =
     (case newOauthClient e ctx tokenSource (emit (Call ''createAlphaCloudService'') w0) of
        (Panic, w1) \<Rightarrow> (Panic, w1)
      | (Return (client, Some err), w1) \<Rightarrow> (Return (None, Some err), w1)
      | (Return (None, None), w1) \<Rightarrow>
          (Return (None, Some (OtherError ''client is nil'')), emit AlphaNew w1)
      | (Return (Some client, None), w1) \<Rightarrow>
          (case alphaNew e client of
             Some err \<Rightarrow> (Return (None, Some err), emit AlphaNew w1)
           | None \<Rightarrow>
               (Return (Some (AlphaService client (userAgent e vendorVersion)), None),
                emit AlphaNew w1)))"

section \<open>getProjectAndZone\<close>

text \<open>
  The guards \<open>config == nil || config.Global.Zone == ""\<close> and
  \<open>config == nil || config.Global.ProjectId == ""\<close>, read from the other side: the
  value the configuration file gives, if it gives one.
\<close>

definition configZone :: "ConfigFile option \<Rightarrow> string option" where
  "configZone config =
     (case config of
        None \<Rightarrow> None
      | Some c \<Rightarrow> if Zone (Global c) = [] then None else Some (Zone (Global c)))"

definition configProjectId :: "ConfigFile option \<Rightarrow> string option" where
  "configProjectId config =
     (case config of
        None \<Rightarrow> None
      | Some c \<Rightarrow> if ProjectId (Global c) = [] then None else Some (ProjectId (Global c)))"

text \<open>
  The result is the Go triple \<open>(projectID, zone, err)\<close>; both error returns are
  \<open>return "", "", err\<close>.
\<close>

definition getProjectAndZone ::
  "env \<Rightarrow> ConfigFile option \<Rightarrow> world \<Rightarrow> (string \<times> string \<times> error option) \<times> world" where
  "getProjectAndZone e config w0 =
     (let w = emit (Call ''getProjectAndZone'') w0;
          (zoneResult, w1) =
            (case configZone config of
               None \<Rightarrow> (metadataZone e, emit MetadataZone w)
             | Some z \<Rightarrow> (Inr z, w))
      in case zoneResult of
           Inl err \<Rightarrow> (([], [], Some err), w1)
         | Inr zoneName \<Rightarrow>
             (let (projectResult, w2) =
                    (case configProjectId config of
                       None \<Rightarrow> (metadataProjectID e, emit MetadataProjectID w1)
                     | Some p \<Rightarrow> (Inr p, w1))
              in case projectResult of
                   Inl err \<Rightarrow> (([], [], Some err), w2)
                 | Inr projectID \<Rightarrow> ((projectID, zoneName, None), w2)))"

section \<open>CreateCloudProvider\<close>

definition CreateCloudProvider ::
  "env \<Rightarrow> Context \<Rightarrow> string \<Rightarrow> string \<Rightarrow> world
     \<Rightarrow> (CloudProvider option \<times> error option) outcome \<times> world" where
  "CreateCloudProvider e ctx vendorVersion configPath w0 =
     (case readConfig e configPath (emit (Call ''CreateCloudProvider'') w0) of
        ((configFile, Some err), w1) \<Rightarrow> (Return (None, Some err), w1)
      | ((configFile, None), w1) \<Rightarrow>
     (case generateTokenSource e ctx configFile w1 of
        ((tokenSource, Some err), w2) \<Rightarrow> (Return (None, Some err), w2)
      | ((tokenSource, None), w2) \<Rightarrow>
     (case createCloudService e ctx vendorVersion tokenSource w2 of
        (Panic, w3) \<Rightarrow> (Panic, w3)
      | (Return (svc, Some err), w3) \<Rightarrow> (Return (None, Some err), w3)
      | (Return (svc, None), w3) \<Rightarrow>
     (case createAlphaCloudService e ctx vendorVersion tokenSource w3 of
        (Panic, w4) \<Rightarrow> (Panic, w4)
      | (Return (alphasvc, Some err), w4) \<Rightarrow> (Return (None, Some err), w4)
      | (Return (alphasvc, None), w4) \<Rightarrow>
     (case getProjectAndZone e configFile w4 of
        ((projectID, zoneName, Some err), w5) \<Rightarrow>
          (Return (None, Some (Errorf ''Failed getting Project and Zone: '' err)), w5)
      | ((projectID, zoneName, None), w5) \<Rightarrow>
          (Return (Some \<lparr>service = svc, alphaService = alphasvc,
                          project = projectID, zone = zoneName, zonesCache = Map.empty\<rparr>,
                   None),
           w5))))))"

section \<open>Field resolution as the spec states it\<close>

text \<open>
  The resolution of one field in the spec's words (4.5): the configuration's value
  verbatim if the configuration is present and the field non-empty, otherwise the
  answer of the metadata service.
\<close>

definition specZone :: "env \<Rightarrow> ConfigFile option \<Rightarrow> error + string" where
  "specZone e config =
     (case config of
        None \<Rightarrow> metadataZone e
      | Some c \<Rightarrow> if Zone (Global c) \<noteq> [] then Inr (Zone (Global c)) else metadataZone e)"

definition specProject :: "env \<Rightarrow> ConfigFile option \<Rightarrow> error + string" where
  "specProject e config =
     (case config of
        None \<Rightarrow> metadataProjectID e
      | Some c \<Rightarrow>
          if ProjectId (Global c) \<noteq> [] then Inr (ProjectId (Global c)) else metadataProjectID e)"

section \<open>Reading a trace\<close>

text \<open>The events of \<open>n\<close> ticks on which \<open>Token()\<close> fails, from call \<open>c\<close> and time \<open>t\<close>.\<close>

fun failedTicks :: "nat \<Rightarrow> nat \<Rightarrow> nat \<Rightarrow> nat \<Rightarrow> event list" where
  "failedTicks 0 interval c t = []"
| "failedTicks (Suc n) interval c t =
     TickWait interval # TokenCall c (t + interval) # failedTicks n interval (Suc c) (t + interval)"

text \<open>
  The steps of a construction: the entries into the package's functions and the two
  client constructors \<open>compute.New\<close> and \<open>alpha.New\<close>, as they appear in a trace.
  \<open>constructionSteps\<close> are the steps of a construction in which nothing fails.
\<close>

fun isStep :: "event \<Rightarrow> bool" where
  "isStep (Call f) = True"
| "isStep ComputeNew = True"
| "isStep AlphaNew = True"
| "isStep ev = False"

definition steps :: "event list \<Rightarrow> event list" where
  "steps evs = filter isStep evs"

definition stableSteps :: "event list" where
  "stableSteps =
     [Call ''createCloudService'', Call ''createCloudServiceWithDefaultServiceAccount'',
      Call ''newOauthClient'', ComputeNew]"

definition alphaSteps :: "event list" where
  "alphaSteps = [Call ''createAlphaCloudService'', Call ''newOauthClient'', AlphaNew]"

definition constructionSteps :: "event list" where
  "constructionSteps =
     [Call ''CreateCloudProvider'', Call ''readConfig'', Call ''generateTokenSource'']
     @ stableSteps @ alphaSteps @ [Call ''getProjectAndZone'']"

section \<open>Concrete inputs\<close>

text \<open>
  \<open>cloudEnv\<close> is a host on the cloud with working metadata, default credentials,
  tokens and clients, no configuration file on disk, and no credentials variable in the
  environment. The other environments change one answer each: \<open>diskEnv\<close> has a
  configuration file that parses and one that does not, \<open>noProjectEnv\<close> a metadata
  server that does not answer the project query, \<open>failingTokens\<close> a token source that
  is never ready, \<open>secondTryTokens\<close> one that is ready on its second call.
  \<open>startWorld\<close> is the state before the construction; \<open>background\<close> is a context
  that is never cancelled, \<open>cancelledContext\<close> one that is cancelled at time 0, before
  the construction starts.
\<close>

definition emptyConfig :: ConfigFile where
  "emptyConfig = \<lparr>Global = \<lparr>TokenURL = [], TokenBody = [], ProjectId = [], Zone = []\<rparr>\<rparr>"

definition altConfig :: ConfigFile where
  "altConfig = \<lparr>Global = \<lparr>TokenURL = ''https://example.com/token'', TokenBody = ''body'',
                            ProjectId = [], Zone = []\<rparr>\<rparr>"

definition zoneOnlyConfig :: ConfigFile where
  "zoneOnlyConfig = \<lparr>Global = \<lparr>TokenURL = [], TokenBody = [],
                                 ProjectId = [], Zone = ''us-central1-a''\<rparr>\<rparr>"

definition cloudEnv :: env where
  "cloudEnv =
     \<lparr>openFile = (\<lambda>p. Inl (OtherError ''no such file or directory'')),
      readInto = (\<lambda>s. (None, emptyConfig)),
      defaultCredentials = None,
      lookupGAC = None,
      onGCE = True,
      metadataProjectID = Inr ''my-project'',
      metadataZone = Inr ''us-central1-b'',
      tokenOf = (\<lambda>ts n. Inr ''ya29.token''),
      computeNew = (\<lambda>c. None),
      alphaNew = (\<lambda>c. None),
      GOOS = ''linux'',
      GOARCH = ''amd64''\<rparr>"

definition diskEnv :: env where
  "diskEnv = cloudEnv
     \<lparr>openFile := (\<lambda>p. if p = ''/etc/gce.conf'' then Inr ''[global]~zone = us-central1-a''
                        else if p = ''/etc/bad.conf'' then Inr ''[global''
                        else Inl (OtherError ''no such file or directory'')),
      readInto := (\<lambda>s. if s = ''[global]~zone = us-central1-a'' then (None, zoneOnlyConfig)
                        else (Some (OtherError ''expected section header''), emptyConfig))\<rparr>"

definition noProjectEnv :: env where
  "noProjectEnv = cloudEnv\<lparr>metadataProjectID := Inl (OtherError ''metadata: not available'')\<rparr>"

definition failingTokens :: env where
  "failingTokens = cloudEnv\<lparr>tokenOf := (\<lambda>ts n. Inl (OtherError ''metadata: not ready''))\<rparr>"

definition secondTryTokens :: env where
  "secondTryTokens =
     cloudEnv\<lparr>tokenOf := (\<lambda>ts n. if n = 0 then Inl (OtherError ''metadata: not ready'')
                                   else Inr ''ya29.token'')\<rparr>"

definition metadataSource :: token_source where
  "metadataSource = ComputeTokenSource [] [CloudPlatformScope]"

definition startWorld :: world where
  "startWorld = \<lparr>now = 0, tokenCalls = 0, openHandles = 0, trace = []\<rparr>"

definition background :: Context where
  "background = \<lparr>cancelAt = None\<rparr>"

definition cancelledContext :: Context where
  "cancelledContext = \<lparr>cancelAt = Some 0\<rparr>"

definition notFoundError :: googleapi_Error where
  "notFoundError = \<lparr>Code = 404, Errors = [\<lparr>Reason = ''notFound'', Message = ''gone''\<rparr>]\<rparr>"

section \<open>Error classification: properties\<close>

lemma rangeErrors_iff: "rangeErrors es reason \<longleftrightarrow> (\<exists>e \<in> set es. Reason e = reason)"
  by (induction es) auto

lemma IsGCEError_true_iff:
  "IsGCEError err reason = Return True \<longleftrightarrow>
      (\<exists>a. err = Some (GoogleapiError (Some a)) \<and> (\<exists>e \<in> set (Errors a). Reason e = reason))"
  by (simp add: IsGCEError_def rangeErrors_iff split: option.split error.split)

lemma IsGCEError_other:
  "(\<forall>p. err \<noteq> Some (GoogleapiError p)) \<Longrightarrow> IsGCEError err reason = Return False"
  by (simp add: IsGCEError_def split: option.split error.split)

lemma IsGCEError_single:
  "Errors a = [\<lparr>Reason = r, Message = m\<rparr>] \<Longrightarrow>
     IsGCEError (Some (GoogleapiError (Some a))) reason = Return (r = reason)"
  by (simp add: IsGCEError_def)

text \<open>
  C7. \<open>IsGCEError err reason\<close> returns true exactly when \<open>err\<close> is a
  \<open>*googleapi.Error\<close> one of whose \<open>Errors\<close> has that \<open>Reason\<close>. On every error
  value of another type, the nil error included, it returns false, for every reason,
  and does not panic. \<open>IsGCENotFoundError\<close> and \<open>IsGCEInvalidError\<close> are
  \<open>IsGCEError\<close> at the reasons \<open>notFound\<close> and \<open>invalid\<close>, so an error whose
  sub-errors are one entry of reason \<open>notFound\<close> satisfies the first and not the
  second.
\<close>

theorem IsGCEError_classification:
  "(IsGCEError err reason = Return True \<longleftrightarrow>
      (\<exists>a. err = Some (GoogleapiError (Some a)) \<and> (\<exists>e \<in> set (Errors a). Reason e = reason)))
   \<and> ((\<forall>p. err \<noteq> Some (GoogleapiError p)) \<longrightarrow> IsGCEError err reason = Return False)
   \<and> IsGCENotFoundError err = IsGCEError err ''notFound''
   \<and> IsGCEInvalidError err = IsGCEError err ''invalid''
   \<and> (Errors a = [\<lparr>Reason = ''notFound'', Message = m\<rparr>] \<longrightarrow>
        IsGCENotFoundError (Some (GoogleapiError (Some a))) = Return True
        \<and> IsGCEInvalidError (Some (GoogleapiError (Some a))) = Return False)"
proof (intro conjI impI)
  show "IsGCEError err reason = Return True \<longleftrightarrow>
      (\<exists>a. err = Some (GoogleapiError (Some a)) \<and> (\<exists>e \<in> set (Errors a). Reason e = reason))"
    by (rule IsGCEError_true_iff)
next
  assume "\<forall>p. err \<noteq> Some (GoogleapiError p)"
  then show "IsGCEError err reason = Return False" by (rule IsGCEError_other)
next
  show "IsGCENotFoundError err = IsGCEError err ''notFound''"
    by (simp only: IsGCENotFoundError_def)
next
  show "IsGCEInvalidError err = IsGCEError err ''invalid''"
    by (simp only: IsGCEInvalidError_def)
next
  assume a: "Errors a = [\<lparr>Reason = ''notFound'', Message = m\<rparr>]"
  show "IsGCENotFoundError (Some (GoogleapiError (Some a))) = Return True"
    unfolding IsGCENotFoundError_def using IsGCEError_single [OF a] by simp
next
  assume a: "Errors a = [\<lparr>Reason = ''notFound'', Message = m\<rparr>]"
  show "IsGCEInvalidError (Some (GoogleapiError (Some a))) = Return False"
    unfolding IsGCEInvalidError_def using IsGCEError_single [OF a] by simp
qed

theorem IsGCEError_classification_witness:
  "IsGCENotFoundError (Some (GoogleapiError (Some notFoundError))) = Return True
   \<and> IsGCEInvalidError (Some (GoogleapiError (Some notFoundError))) = Return False
   \<and> IsGCENotFoundError (Some (OtherError ''plain'')) = Return False
   \<and> IsGCEInvalidError (Some (OtherError ''plain'')) = Return False"
proof -
  have h: "Errors notFoundError = [\<lparr>Reason = ''notFound'', Message = ''gone''\<rparr>]"
    by (simp add: notFoundError_def)
  have o: "\<forall>p. Some (OtherError ''plain'') \<noteq> Some (GoogleapiError p)"
    by simp
  note t = IsGCEError_classification
             [where err = "Some (OtherError ''plain'')" and m = "''gone''" and a = notFoundError]
  from t [of "''notFound''"] t [of "''invalid''"] h o show ?thesis
    by metis
qed

section \<open>generateTokenSource: properties\<close>

lemma definedTokenURL_Some:
  "TokenURL (Global c) \<noteq> [] \<Longrightarrow> TokenURL (Global c) \<noteq> ''nil'' \<Longrightarrow>
     definedTokenURL (Some c) = Some (TokenURL (Global c), TokenBody (Global c))"
  by (simp add: definedTokenURL_def)

lemma definedTokenURL_None:
  "configFile = None \<or> (\<exists>c. configFile = Some c \<and> TokenURL (Global c) = []) \<Longrightarrow>
     definedTokenURL configFile = None"
  by (auto simp: definedTokenURL_def)

text \<open>
  C3. For every configuration that is present and whose \<open>tokenURL\<close> is non-empty and
  not the string \<open>nil\<close>, \<open>generateTokenSource\<close> returns the alternate token source
  of \<open>(tokenURL, tokenBody)\<close> and a nil error, whatever the environment variable, the
  on-cloud probe and the default credentials are: the only external call it makes is
  \<open>NewAltTokenSource\<close>.
\<close>

theorem generateTokenSource_alt:
  assumes "TokenURL (Global c) \<noteq> []" and "TokenURL (Global c) \<noteq> ''nil''"
  shows "generateTokenSource e ctx (Some c) w =
           ((Some (AltTokenSource (TokenURL (Global c)) (TokenBody (Global c))), None),
            emit NewAltTokenSource (emit (Call ''generateTokenSource'') w))"
  using definedTokenURL_Some [OF assms] by (simp add: generateTokenSource_def)

theorem generateTokenSource_alt_witness:
  "generateTokenSource cloudEnv background (Some altConfig) startWorld =
     ((Some (AltTokenSource ''https://example.com/token'' ''body''), None),
      \<lparr>now = 0, tokenCalls = 0, openHandles = 0,
       trace = [Call ''generateTokenSource'', NewAltTokenSource]\<rparr>)"
proof -
  have a: "TokenURL (Global altConfig) \<noteq> []" by (simp add: altConfig_def)
  have b: "TokenURL (Global altConfig) \<noteq> ''nil''" by (simp add: altConfig_def)
  show ?thesis
    using generateTokenSource_alt [OF a b, of cloudEnv background startWorld]
    by (simp add: altConfig_def startWorld_def emit_def)
qed

lemma default_branch_result:
  "definedTokenURL configFile = None \<Longrightarrow>
     fst (generateTokenSource e ctx configFile w) =
       (if lookupGAC e = None \<and> onGCE e
        then (Some (ComputeTokenSource [] [CloudPlatformScope]),
              snd (googleDefaultTokenSource e [CloudPlatformScope, ComputeScope]))
        else googleDefaultTokenSource e [CloudPlatformScope, ComputeScope])"
  by (simp add: generateTokenSource_def Let_def split: prod.split option.split)

text \<open>
  C2. For every configuration that is absent or whose \<open>tokenURL\<close> is empty: when the
  environment variable \<open>GOOGLE_APPLICATION_CREDENTIALS\<close> is absent and the on-cloud probe
  is true, the token source returned is the metadata-backed one,
  \<open>google.ComputeTokenSource("", CloudPlatformScope)\<close>; when the variable is present or the
  probe is false, the result is that of \<open>google.DefaultTokenSource\<close> unchanged: the
  default source with the two scopes and a nil error, or a nil source and the error of
  its construction.
\<close>

theorem generateTokenSource_default:
  assumes "configFile = None \<or> (\<exists>c. configFile = Some c \<and> TokenURL (Global c) = [])"
  shows "(lookupGAC e = None \<and> onGCE e \<longrightarrow>
            fst (fst (generateTokenSource e ctx configFile w))
              = Some (ComputeTokenSource [] [CloudPlatformScope]))
       \<and> (lookupGAC e \<noteq> None \<or> \<not> onGCE e \<longrightarrow>
            fst (generateTokenSource e ctx configFile w)
              = (case defaultCredentials e of
                   None \<Rightarrow> (Some (DefaultTokenSource [CloudPlatformScope, ComputeScope]), None)
                 | Some err \<Rightarrow> (None, Some err)))"
  using default_branch_result [OF definedTokenURL_None [OF assms], of e ctx w]
  by (auto simp: googleDefaultTokenSource_def)

theorem generateTokenSource_default_witness:
  "fst (fst (generateTokenSource cloudEnv background None startWorld))
     = Some (ComputeTokenSource [] [CloudPlatformScope])
   \<and> fst (generateTokenSource (cloudEnv\<lparr>lookupGAC := Some ''/etc/sa.json''\<rparr>) background None startWorld)
     = (Some (DefaultTokenSource [CloudPlatformScope, ComputeScope]), None)
   \<and> fst (generateTokenSource (cloudEnv\<lparr>onGCE := False, defaultCredentials := Some (OtherError ''no credentials'')\<rparr>)
            background (Some emptyConfig) startWorld)
     = (None, Some (OtherError ''no credentials''))"
proof -
  have n: "(None :: ConfigFile option) = None \<or> (\<exists>c. None = Some c \<and> TokenURL (Global c) = [])"
    by simp
  have s: "Some emptyConfig = None \<or> (\<exists>c. Some emptyConfig = Some c \<and> TokenURL (Global c) = [])"
    by (simp add: emptyConfig_def)
  show ?thesis
    using generateTokenSource_default [OF n, of cloudEnv background startWorld]
          generateTokenSource_default [OF n, of "cloudEnv\<lparr>lookupGAC := Some ''/etc/sa.json''\<rparr>" background startWorld]
          generateTokenSource_default [OF s, of "cloudEnv\<lparr>onGCE := False, defaultCredentials := Some (OtherError ''no credentials'')\<rparr>" background startWorld]
    by (simp add: cloudEnv_def)
qed

section \<open>readConfig: properties\<close>

lemma readConfig_empty:
  "readConfig e [] w = ((None, None), emit (Call ''readConfig'') w)"
  by (simp add: readConfig_def)

lemma readConfig_open_fails:
  "configPath \<noteq> [] \<Longrightarrow> openFile e configPath = Inl err \<Longrightarrow>
     readConfig e configPath w =
       ((None, Some (Errorf (''couldn't open cloud provider configuration at ''
                               @ configPath @ '': '') err)),
        emit (OsOpen configPath) (emit (Call ''readConfig'') w))"
  by (simp add: readConfig_def)

lemma readConfig_opened:
  "configPath \<noteq> [] \<Longrightarrow> openFile e configPath = Inr reader \<Longrightarrow>
     readConfig e configPath w =
       ((case readInto e reader of
           (Some err, cfg) \<Rightarrow>
             (None, Some (Errorf (''couldn't read cloud provider configuration at ''
                                    @ configPath @ '': '') err))
         | (None, cfg) \<Rightarrow> (Some cfg, None)),
        w\<lparr>trace := trace w @ [Call ''readConfig'', OsOpen configPath, GcfgReadInto,
                                FileClose configPath]\<rparr>)"
  by (simp add: readConfig_def emit_def Let_def split: prod.split option.split)

lemma readConfig_handles: "openHandles (snd (readConfig e configPath w)) = openHandles w"
proof (cases "configPath = []")
  case True
  then show ?thesis by (simp add: readConfig_empty emit_def)
next
  case False
  then show ?thesis
    by (cases "openFile e configPath")
       (simp_all add: readConfig_open_fails readConfig_opened emit_def)
qed

text \<open>
  C8. \<open>readConfig\<close> with the empty path returns the absent configuration and no error;
  with a non-empty path whose file cannot be opened it returns an error; with a file that
  opens but whose contents \<open>gcfg\<close> cannot read into the schema it returns an error; a
  file that opens and parses is returned. Whenever the file was opened, it is closed
  after the read, on the failing and on the successful return, and in every run the
  number of open handles is afterwards what it was before.
\<close>

theorem readConfig_contract:
  "(configPath = [] \<longrightarrow> fst (readConfig e configPath w) = (None, None))
   \<and> (configPath \<noteq> [] \<and> openFile e configPath = Inl err \<longrightarrow>
        fst (readConfig e configPath w) =
          (None, Some (Errorf (''couldn't open cloud provider configuration at ''
                                 @ configPath @ '': '') err)))
   \<and> (configPath \<noteq> [] \<and> openFile e configPath = Inr reader
        \<and> readInto e reader = (Some err, cfg) \<longrightarrow>
        fst (readConfig e configPath w) =
          (None, Some (Errorf (''couldn't read cloud provider configuration at ''
                                 @ configPath @ '': '') err)))
   \<and> (configPath \<noteq> [] \<and> openFile e configPath = Inr reader
        \<and> readInto e reader = (None, cfg) \<longrightarrow>
        fst (readConfig e configPath w) = (Some cfg, None))
   \<and> (configPath \<noteq> [] \<and> openFile e configPath = Inr reader \<longrightarrow>
        trace (snd (readConfig e configPath w)) =
          trace w @ [Call ''readConfig'', OsOpen configPath, GcfgReadInto, FileClose configPath])
   \<and> openHandles (snd (readConfig e configPath w)) = openHandles w"
  by (simp add: readConfig_empty readConfig_open_fails readConfig_opened readConfig_handles)

theorem readConfig_contract_witness:
  "fst (readConfig diskEnv [] startWorld) = (None, None)
   \<and> fst (readConfig diskEnv ''/missing'' startWorld) =
       (None, Some (Errorf ''couldn't open cloud provider configuration at /missing: ''
                      (OtherError ''no such file or directory'')))
   \<and> fst (readConfig diskEnv ''/etc/bad.conf'' startWorld) =
       (None, Some (Errorf ''couldn't read cloud provider configuration at /etc/bad.conf: ''
                      (OtherError ''expected section header'')))
   \<and> fst (readConfig diskEnv ''/etc/gce.conf'' startWorld) = (Some zoneOnlyConfig, None)
   \<and> trace (snd (readConfig diskEnv ''/etc/bad.conf'' startWorld)) =
       [Call ''readConfig'', OsOpen ''/etc/bad.conf'', GcfgReadInto, FileClose ''/etc/bad.conf'']
   \<and> openHandles (snd (readConfig diskEnv ''/etc/bad.conf'' startWorld)) = 0"
proof -
  have o1: "openFile diskEnv ''/missing'' = Inl (OtherError ''no such file or directory'')"
    by (simp add: diskEnv_def)
  have o2: "openFile diskEnv ''/etc/bad.conf'' = Inr ''[global''"
    by (simp add: diskEnv_def)
  have o3: "openFile diskEnv ''/etc/gce.conf'' = Inr ''[global]~zone = us-central1-a''"
    by (simp add: diskEnv_def)
  have r2: "readInto diskEnv ''[global'' = (Some (OtherError ''expected section header''), emptyConfig)"
    by (simp add: diskEnv_def)
  have r3: "readInto diskEnv ''[global]~zone = us-central1-a'' = (None, zoneOnlyConfig)"
    by (simp add: diskEnv_def)
  have w0: "trace startWorld = [] \<and> openHandles startWorld = 0"
    by (simp add: startWorld_def)
  show ?thesis
    using readConfig_contract [where configPath = "[]" and e = diskEnv and w = startWorld]
          readConfig_contract [where configPath = "''/missing''" and e = diskEnv and w = startWorld
                                 and err = "OtherError ''no such file or directory''"]
          readConfig_contract [where configPath = "''/etc/bad.conf''" and e = diskEnv
                                 and w = startWorld and reader = "''[global''"
                                 and err = "OtherError ''expected section header''"
                                 and cfg = emptyConfig]
          readConfig_contract [where configPath = "''/etc/gce.conf''" and e = diskEnv
                                 and w = startWorld
                                 and reader = "''[global]~zone = us-central1-a''"
                                 and cfg = zoneOnlyConfig]
          o1 o2 o3 r2 r3 w0
    by simp
qed

section \<open>getProjectAndZone: properties\<close>

lemma specZone_configZone:
  "specZone e config = (case configZone config of None \<Rightarrow> metadataZone e | Some z \<Rightarrow> Inr z)"
  by (simp add: specZone_def configZone_def split: option.split)

lemma specProject_configProjectId:
  "specProject e config =
     (case configProjectId config of None \<Rightarrow> metadataProjectID e | Some p \<Rightarrow> Inr p)"
  by (simp add: specProject_def configProjectId_def split: option.split)

lemma getProjectAndZone_fst:
  "fst (getProjectAndZone e config w) =
     (case specZone e config of
        Inl err \<Rightarrow> ([], [], Some err)
      | Inr z \<Rightarrow>
          (case specProject e config of
             Inl err \<Rightarrow> ([], [], Some err)
           | Inr p \<Rightarrow> (p, z, None)))"
  by (cases "configZone config"; cases "configProjectId config";
      cases "metadataZone e"; cases "metadataProjectID e";
      simp add: getProjectAndZone_def specZone_configZone specProject_configProjectId)

text \<open>
  C6, as the code has it. Each field is resolved by itself, first the zone, then the
  project: the configuration's value if it is non-empty, otherwise the metadata
  service's. When both resolve, both are returned with a nil error. When the zone's
  metadata query fails, or the zone resolves and the project's metadata query fails,
  the error is returned and both strings are empty, so a configured zone is returned
  only if the project resolves too. A configuration with only the zone
  \<open>us-central1-a\<close> and a metadata project \<open>my-project\<close> gives exactly that project
  and that zone.
\<close>

theorem getProjectAndZone_resolution:
  "fst (getProjectAndZone e config w) =
     (case specZone e config of
        Inl err \<Rightarrow> ([], [], Some err)
      | Inr z \<Rightarrow>
          (case specProject e config of
             Inl err \<Rightarrow> ([], [], Some err)
           | Inr p \<Rightarrow> (p, z, None)))
   \<and> (config = Some c \<and> Zone (Global c) = ''us-central1-a'' \<and> ProjectId (Global c) = []
        \<and> metadataProjectID e = Inr ''my-project'' \<longrightarrow>
      fst (getProjectAndZone e config w) = (''my-project'', ''us-central1-a'', None))"
  by (simp add: getProjectAndZone_fst) (simp add: specZone_def specProject_def)

theorem getProjectAndZone_resolution_witness:
  "fst (getProjectAndZone cloudEnv (Some zoneOnlyConfig) startWorld)
     = (''my-project'', ''us-central1-a'', None)
   \<and> fst (getProjectAndZone cloudEnv None startWorld)
     = (''my-project'', ''us-central1-b'', None)"
proof -
  have z: "Zone (Global zoneOnlyConfig) = ''us-central1-a''"
    and p: "ProjectId (Global zoneOnlyConfig) = []"
    by (simp_all add: zoneOnlyConfig_def)
  have m: "metadataProjectID cloudEnv = Inr ''my-project''"
    and mz: "metadataZone cloudEnv = Inr ''us-central1-b''"
    by (simp_all add: cloudEnv_def)
  have "fst (getProjectAndZone cloudEnv (Some zoneOnlyConfig) startWorld)
          = (''my-project'', ''us-central1-a'', None)"
    using getProjectAndZone_resolution
            [where e = cloudEnv and config = "Some zoneOnlyConfig" and c = zoneOnlyConfig
               and w = startWorld] z p m
    by blast
  moreover have "fst (getProjectAndZone cloudEnv None startWorld)
          = (''my-project'', ''us-central1-b'', None)"
    using getProjectAndZone_resolution [where e = cloudEnv and config = None and w = startWorld]
          m mz
    by (simp add: specZone_def specProject_def)
  ultimately show ?thesis by simp
qed

theorem getProjectAndZone_zone_counterexample:
  "Zone (Global zoneOnlyConfig) = ''us-central1-a''
   \<and> fst (getProjectAndZone noProjectEnv (Some zoneOnlyConfig) startWorld)
       = ([], [], Some (OtherError ''metadata: not available''))
   \<and> fst (snd (fst (getProjectAndZone noProjectEnv (Some zoneOnlyConfig) startWorld)))
       \<noteq> Zone (Global zoneOnlyConfig)"
  by (simp add: getProjectAndZone_fst specZone_def specProject_def zoneOnlyConfig_def
                noProjectEnv_def cloudEnv_def)

section \<open>The token warm-up: properties\<close>

lemma fetchInitialToken_error:
  "isl (tokenOf e ts (tokenCalls w)) \<Longrightarrow>
     fetchInitialToken e (Some ts) w =
       (Return (False, None),
        w\<lparr>tokenCalls := Suc (tokenCalls w),
          trace := trace w @ [TokenCall (tokenCalls w) (now w)]\<rparr>)"
  by (cases "tokenOf e ts (tokenCalls w)") (simp_all add: fetchInitialToken_def emit_def)

lemma fetchInitialToken_token:
  "\<not> isl (tokenOf e ts (tokenCalls w)) \<Longrightarrow>
     fetchInitialToken e (Some ts) w =
       (Return (True, None),
        w\<lparr>tokenCalls := Suc (tokenCalls w),
          trace := trace w @ [TokenCall (tokenCalls w) (now w)]\<rparr>)"
  by (cases "tokenOf e ts (tokenCalls w)") (simp_all add: fetchInitialToken_def emit_def)

lemma pollTicks_error:
  "isl (tokenOf e ts (tokenCalls w)) \<Longrightarrow>
     pollTicks (Suc n) interval rest (fetchInitialToken e (Some ts)) w =
       pollTicks n interval rest (fetchInitialToken e (Some ts))
         (w\<lparr>now := now w + interval, tokenCalls := Suc (tokenCalls w),
            trace := trace w @ [TickWait interval, TokenCall (tokenCalls w) (now w + interval)]\<rparr>)"
  by (simp add: fetchInitialToken_error emit_def)

lemma pollTicks_token:
  "\<not> isl (tokenOf e ts (tokenCalls w)) \<Longrightarrow>
     pollTicks (Suc n) interval rest (fetchInitialToken e (Some ts)) w =
       (Return None,
         w\<lparr>now := now w + interval, tokenCalls := Suc (tokenCalls w),
            trace := trace w @ [TickWait interval, TokenCall (tokenCalls w) (now w + interval)]\<rparr>)"
  by (simp add: fetchInitialToken_token emit_def)

lemma PollImmediate_error:
  "isl (tokenOf e ts (tokenCalls w)) \<Longrightarrow>
     PollImmediate interval timeout (fetchInitialToken e (Some ts)) w =
       pollTicks (timeout div interval) interval (timeout mod interval)
         (fetchInitialToken e (Some ts))
         (w\<lparr>tokenCalls := Suc (tokenCalls w),
            trace := trace w @ [TokenCall (tokenCalls w) (now w)]\<rparr>)"
  by (simp add: PollImmediate_def fetchInitialToken_error)

lemma PollImmediate_token:
  "\<not> isl (tokenOf e ts (tokenCalls w)) \<Longrightarrow>
     PollImmediate interval timeout (fetchInitialToken e (Some ts)) w =
       (Return None,
         w\<lparr>tokenCalls := Suc (tokenCalls w),
            trace := trace w @ [TokenCall (tokenCalls w) (now w)]\<rparr>)"
  by (simp add: PollImmediate_def fetchInitialToken_token)

lemma pollTicks_exhausts:
  assumes "\<forall>k. isl (tokenOf e ts k)"
  shows "pollTicks n interval 0 (fetchInitialToken e (Some ts)) v =
           (Return (Some ErrWaitTimeout),
            v\<lparr>now := now v + n * interval, tokenCalls := tokenCalls v + n,
              trace := trace v @ failedTicks n interval (tokenCalls v) (now v)\<rparr>)"
proof (induction n arbitrary: v)
  case 0
  show ?case by simp
next
  case (Suc n)
  have "isl (tokenOf e ts (tokenCalls v))" using assms by simp
  then show ?case
    by (simp only: pollTicks_error Suc.IH) (simp add: add.commute add.left_commute)
qed

lemma failedTicks_6:
  "failedTicks (Suc (Suc (Suc (Suc (Suc (Suc 0)))))) 5 c t =
     [TickWait 5, TokenCall c (t + 5),
      TickWait 5, TokenCall (c + 1) (t + 10),
      TickWait 5, TokenCall (c + 2) (t + 15),
      TickWait 5, TokenCall (c + 3) (t + 20),
      TickWait 5, TokenCall (c + 4) (t + 25),
      TickWait 5, TokenCall (c + 5) (t + 30)]"
  by (simp add: add.assoc)

lemma ticks_30_5: "(30::nat) div 5 = Suc (Suc (Suc (Suc (Suc (Suc 0)))))" "(30::nat) mod 5 = 0"
  by simp_all

lemma PollImmediate_exhausts:
  assumes "\<forall>k. isl (tokenOf e ts k)"
  shows "PollImmediate 5 30 (fetchInitialToken e (Some ts)) v =
        (Return (Some ErrWaitTimeout),
         v\<lparr>now := now v + 30, tokenCalls := tokenCalls v + 7,
           trace := trace v @
             [TokenCall (tokenCalls v) (now v),
              TickWait 5, TokenCall (tokenCalls v + 1) (now v + 5),
              TickWait 5, TokenCall (tokenCalls v + 2) (now v + 10),
              TickWait 5, TokenCall (tokenCalls v + 3) (now v + 15),
              TickWait 5, TokenCall (tokenCalls v + 4) (now v + 20),
              TickWait 5, TokenCall (tokenCalls v + 5) (now v + 25),
              TickWait 5, TokenCall (tokenCalls v + 6) (now v + 30)]\<rparr>)"
proof -
  have "isl (tokenOf e ts (tokenCalls v))" using assms by simp
  then show ?thesis
    by (simp only: PollImmediate_error ticks_30_5 pollTicks_exhausts [OF assms] failedTicks_6)
       simp
qed

lemma newOauthClient_exhausts:
  assumes "\<forall>n. isl (tokenOf e ts n)"
  shows "newOauthClient e ctx (Some ts) w =
        (Return (None, Some ErrWaitTimeout),
         w\<lparr>now := now w + 30, tokenCalls := tokenCalls w + 7,
           trace := trace w @
             [Call ''newOauthClient'',
              TokenCall (tokenCalls w) (now w),
              TickWait 5, TokenCall (tokenCalls w + 1) (now w + 5),
              TickWait 5, TokenCall (tokenCalls w + 2) (now w + 10),
              TickWait 5, TokenCall (tokenCalls w + 3) (now w + 15),
              TickWait 5, TokenCall (tokenCalls w + 4) (now w + 20),
              TickWait 5, TokenCall (tokenCalls w + 5) (now w + 25),
              TickWait 5, TokenCall (tokenCalls w + 6) (now w + 30)]\<rparr>)"
  by (simp add: newOauthClient_def PollImmediate_exhausts [OF assms] emit_def)

lemma newOauthClient_second_attempt:
  assumes "isl (tokenOf e ts (tokenCalls w))" and "\<not> isl (tokenOf e ts (Suc (tokenCalls w)))"
  shows "newOauthClient e ctx (Some ts) w =
        (Return (Some (NewClient ctx (Some ts)), None),
         w\<lparr>now := now w + 5, tokenCalls := tokenCalls w + 2,
           trace := trace w @
             [Call ''newOauthClient'',
              TokenCall (tokenCalls w) (now w),
              TickWait 5, TokenCall (tokenCalls w + 1) (now w + 5),
              Oauth2NewClient]\<rparr>)"
proof -
  let ?v = "emit (Call ''newOauthClient'') w"
  have a: "isl (tokenOf e ts (tokenCalls ?v))" using assms(1) by (simp add: emit_def)
  let ?v1 = "?v\<lparr>tokenCalls := Suc (tokenCalls ?v),
                 trace := trace ?v @ [TokenCall (tokenCalls ?v) (now ?v)]\<rparr>"
  have b: "\<not> isl (tokenOf e ts (tokenCalls ?v1))" using assms(2) by (simp add: emit_def)
  have "PollImmediate 5 30 (fetchInitialToken e (Some ts)) ?v =
          pollTicks (Suc (Suc (Suc (Suc (Suc (Suc 0)))))) 5 0 (fetchInitialToken e (Some ts)) ?v1"
    by (simp only: PollImmediate_error [OF a] ticks_30_5)
  also have "\<dots> = (Return None,
         ?v1\<lparr>now := now ?v1 + 5, tokenCalls := Suc (tokenCalls ?v1),
            trace := trace ?v1 @ [TickWait 5, TokenCall (tokenCalls ?v1) (now ?v1 + 5)]\<rparr>)"
    by (rule pollTicks_token [OF b])
  finally show ?thesis
    by (simp add: newOauthClient_def emit_def)
qed

text \<open>
  C1. Against a token source whose \<open>Token()\<close> always returns an error, the warm-up
  of \<open>newOauthClient\<close> calls it at the start and then every 5 time units, seven times
  in all, the last time when the 30 units of the ceiling have elapsed; it then returns
  the timeout error and no client, and \<open>oauth2.NewClient\<close> is not called. Against a
  token source that fails on the first call and succeeds on the second, it returns the
  client with a nil error after 5 time units and two calls, without waiting any longer.
\<close>

theorem newOauthClient_warmup:
  "((\<forall>n. isl (tokenOf e ts n)) \<longrightarrow>
      newOauthClient e ctx (Some ts) w =
        (Return (None, Some ErrWaitTimeout),
         w\<lparr>now := now w + 30, tokenCalls := tokenCalls w + 7,
           trace := trace w @
             [Call ''newOauthClient'',
              TokenCall (tokenCalls w) (now w),
              TickWait 5, TokenCall (tokenCalls w + 1) (now w + 5),
              TickWait 5, TokenCall (tokenCalls w + 2) (now w + 10),
              TickWait 5, TokenCall (tokenCalls w + 3) (now w + 15),
              TickWait 5, TokenCall (tokenCalls w + 4) (now w + 20),
              TickWait 5, TokenCall (tokenCalls w + 5) (now w + 25),
              TickWait 5, TokenCall (tokenCalls w + 6) (now w + 30)]\<rparr>))
   \<and> (isl (tokenOf e ts (tokenCalls w)) \<and> \<not> isl (tokenOf e ts (Suc (tokenCalls w))) \<longrightarrow>
      newOauthClient e ctx (Some ts) w =
        (Return (Some (NewClient ctx (Some ts)), None),
         w\<lparr>now := now w + 5, tokenCalls := tokenCalls w + 2,
           trace := trace w @
             [Call ''newOauthClient'',
              TokenCall (tokenCalls w) (now w),
              TickWait 5, TokenCall (tokenCalls w + 1) (now w + 5),
              Oauth2NewClient]\<rparr>))"
  using newOauthClient_exhausts [of e ts ctx w] newOauthClient_second_attempt [of e ts w ctx]
  by blast

theorem newOauthClient_warmup_witness:
  "newOauthClient failingTokens background (Some metadataSource) startWorld =
     (Return (None, Some ErrWaitTimeout),
      \<lparr>now = 30, tokenCalls = 7, openHandles = 0,
       trace = [Call ''newOauthClient'', TokenCall 0 0, TickWait 5, TokenCall 1 5,
                TickWait 5, TokenCall 2 10, TickWait 5, TokenCall 3 15,
                TickWait 5, TokenCall 4 20, TickWait 5, TokenCall 5 25,
                TickWait 5, TokenCall 6 30]\<rparr>)
   \<and> newOauthClient secondTryTokens background (Some metadataSource) startWorld =
     (Return (Some (NewClient background (Some metadataSource)), None),
      \<lparr>now = 5, tokenCalls = 2, openHandles = 0,
       trace = [Call ''newOauthClient'', TokenCall 0 0, TickWait 5, TokenCall 1 5,
                Oauth2NewClient]\<rparr>)"
proof -
  have f: "\<forall>n. isl (tokenOf failingTokens metadataSource n)"
    by (simp add: failingTokens_def)
  have s: "isl (tokenOf secondTryTokens metadataSource (tokenCalls startWorld))
           \<and> \<not> isl (tokenOf secondTryTokens metadataSource (Suc (tokenCalls startWorld)))"
    by (simp add: secondTryTokens_def startWorld_def)
  show ?thesis
    using newOauthClient_warmup [where e = failingTokens and ts = metadataSource
                                   and ctx = background and w = startWorld] f
          newOauthClient_warmup [where e = secondTryTokens and ts = metadataSource
                                   and ctx = background and w = startWorld] s
    by (simp add: startWorld_def)
qed

text \<open>
  C4, as the code has it. The warm-up takes no context: the context given to
  \<open>newOauthClient\<close> reaches only \<open>oauth2.NewClient\<close>. Whatever the context is and
  whenever it is cancelled, the calls of \<open>Token()\<close>, the waits and the error of the
  warm-up are those of any other context; in particular, against a token source that
  keeps failing, the loop polls until the 30 time units of the ceiling have elapsed.
  It stops earlier only when a token is fetched.
\<close>

theorem newOauthClient_ignores_context:
  "snd (newOauthClient e ctx ts w) = snd (newOauthClient e ctx' ts w)
   \<and> map_outcome snd (fst (newOauthClient e ctx ts w))
       = map_outcome snd (fst (newOauthClient e ctx' ts w))
   \<and> ((\<forall>n. isl (tokenOf e src n)) \<longrightarrow>
        fst (newOauthClient e ctx (Some src) w) = Return (None, Some ErrWaitTimeout)
        \<and> now (snd (newOauthClient e ctx (Some src) w)) = now w + 30
        \<and> tokenCalls (snd (newOauthClient e ctx (Some src) w)) = tokenCalls w + 7)"
proof (intro conjI impI)
  show "snd (newOauthClient e ctx ts w) = snd (newOauthClient e ctx' ts w)"
    by (simp add: newOauthClient_def split: prod.split outcome.split option.split)
next
  show "map_outcome snd (fst (newOauthClient e ctx ts w))
          = map_outcome snd (fst (newOauthClient e ctx' ts w))"
    by (simp add: newOauthClient_def split: prod.split outcome.split option.split)
next
  assume a: "\<forall>n. isl (tokenOf e src n)"
  show "fst (newOauthClient e ctx (Some src) w) = Return (None, Some ErrWaitTimeout)"
    by (simp add: newOauthClient_exhausts [OF a])
  show "now (snd (newOauthClient e ctx (Some src) w)) = now w + 30"
    by (simp add: newOauthClient_exhausts [OF a])
  show "tokenCalls (snd (newOauthClient e ctx (Some src) w)) = tokenCalls w + 7"
    by (simp add: newOauthClient_exhausts [OF a])
qed

theorem newOauthClient_ignores_context_witness:
  "snd (newOauthClient failingTokens cancelledContext (Some metadataSource) startWorld)
     = snd (newOauthClient failingTokens background (Some metadataSource) startWorld)
   \<and> fst (newOauthClient failingTokens cancelledContext (Some metadataSource) startWorld)
       = Return (None, Some ErrWaitTimeout)
   \<and> now (snd (newOauthClient failingTokens cancelledContext (Some metadataSource) startWorld))
       = 30
   \<and> tokenCalls (snd (newOauthClient failingTokens cancelledContext (Some metadataSource) startWorld))
       = 7"
proof -
  have f: "\<forall>n. isl (tokenOf failingTokens metadataSource n)"
    by (simp add: failingTokens_def)
  have n: "now startWorld + 30 = 30" "tokenCalls startWorld + 7 = 7"
    by (simp_all add: startWorld_def)
  note t = newOauthClient_ignores_context
             [where e = failingTokens and ctx = cancelledContext and ctx' = background
                and ts = "Some metadataSource" and src = metadataSource and w = startWorld]
  from t f show ?thesis
    unfolding n by blast
qed

theorem newOauthClient_cancel_counterexample:
  "cancelAt cancelledContext = Some 0
   \<and> newOauthClient failingTokens cancelledContext (Some metadataSource) startWorld =
     (Return (None, Some ErrWaitTimeout),
      \<lparr>now = 30, tokenCalls = 7, openHandles = 0,
       trace = [Call ''newOauthClient'', TokenCall 0 0, TickWait 5, TokenCall 1 5,
                TickWait 5, TokenCall 2 10, TickWait 5, TokenCall 3 15,
                TickWait 5, TokenCall 4 20, TickWait 5, TokenCall 5 25,
                TickWait 5, TokenCall 6 30]\<rparr>)"
proof -
  have f: "\<forall>n. isl (tokenOf failingTokens metadataSource n)"
    by (simp add: failingTokens_def)
  show ?thesis
    by (simp add: newOauthClient_exhausts [OF f] cancelledContext_def startWorld_def)
qed

section \<open>The steps of a construction\<close>

lemma steps_append [simp]: "steps (xs @ ys) = steps xs @ steps ys"
  by (simp add: steps_def)

lemma steps_emit: "steps (trace (emit ev w)) = steps (trace w) @ (if isStep ev then [ev] else [])"
  by (simp add: emit_def steps_def)

lemma readConfig_steps:
  "steps (trace (snd (readConfig e configPath w))) = steps (trace w) @ [Call ''readConfig'']"
proof (cases "configPath = []")
  case True
  then show ?thesis by (simp add: readConfig_empty steps_emit)
next
  case False
  then show ?thesis
    by (cases "openFile e configPath")
       (simp_all add: readConfig_open_fails readConfig_opened steps_emit, simp add: steps_def)
qed

lemma generateTokenSource_steps:
  "steps (trace (snd (generateTokenSource e ctx configFile w)))
     = steps (trace w) @ [Call ''generateTokenSource'']"
  by (simp add: generateTokenSource_def Let_def steps_emit split: option.split prod.split)

lemma generateTokenSource_not_nil:
  "fst (generateTokenSource e ctx configFile w) = (tokenSource, None) \<Longrightarrow> tokenSource \<noteq> None"
  by (auto simp: generateTokenSource_def Let_def googleDefaultTokenSource_def
           split: option.splits prod.splits if_splits)

lemma getProjectAndZone_steps:
  "steps (trace (snd (getProjectAndZone e config w)))
     = steps (trace w) @ [Call ''getProjectAndZone'']"
  by (cases "configZone config"; cases "configProjectId config";
      cases "metadataZone e"; cases "metadataProjectID e";
      simp add: getProjectAndZone_def steps_emit)

lemma fetchInitialToken_steps:
  "steps (trace (snd (fetchInitialToken e (Some ts) w))) = steps (trace w)"
  by (cases "tokenOf e ts (tokenCalls w)") (simp_all add: fetchInitialToken_def steps_emit)

lemma fetchInitialToken_result:
  "fst (fetchInitialToken e (Some ts) w) = Return (\<not> isl (tokenOf e ts (tokenCalls w)), None)"
  by (cases "tokenOf e ts (tokenCalls w)") (simp_all add: fetchInitialToken_def)

lemma pollTicks_result:
  "(fst (pollTicks n interval rest (fetchInitialToken e (Some ts)) w) = Return None
      \<or> fst (pollTicks n interval rest (fetchInitialToken e (Some ts)) w)
           = Return (Some ErrWaitTimeout))
   \<and> steps (trace (snd (pollTicks n interval rest (fetchInitialToken e (Some ts)) w)))
       = steps (trace w)"
proof (induction n arbitrary: w)
  case 0
  show ?case by (simp add: steps_emit)
next
  case (Suc n)
  show ?case
  proof (cases "isl (tokenOf e ts (tokenCalls w))")
    case True
    show ?thesis
      unfolding pollTicks_error [OF True]
      using Suc.IH [of "w\<lparr>now := now w + interval, tokenCalls := Suc (tokenCalls w),
            trace := trace w @ [TickWait interval, TokenCall (tokenCalls w) (now w + interval)]\<rparr>"]
      by (simp add: steps_def)
  next
    case False
    show ?thesis
      unfolding pollTicks_token [OF False] by (simp add: steps_def)
  qed
qed

lemma PollImmediate_result:
  "(fst (PollImmediate interval timeout (fetchInitialToken e (Some ts)) w) = Return None
      \<or> fst (PollImmediate interval timeout (fetchInitialToken e (Some ts)) w)
           = Return (Some ErrWaitTimeout))
   \<and> steps (trace (snd (PollImmediate interval timeout (fetchInitialToken e (Some ts)) w)))
       = steps (trace w)"
proof (cases "isl (tokenOf e ts (tokenCalls w))")
  case True
  show ?thesis
    unfolding PollImmediate_error [OF True]
    using pollTicks_result [of "timeout div interval" interval "timeout mod interval" e ts
            "w\<lparr>tokenCalls := Suc (tokenCalls w),
               trace := trace w @ [TokenCall (tokenCalls w) (now w)]\<rparr>"]
    by (simp add: steps_def)
next
  case False
  show ?thesis
    unfolding PollImmediate_token [OF False] by (simp add: steps_def)
qed

text \<open>With a token source that is not nil, \<open>newOauthClient\<close> has two outcomes.\<close>

lemma newOauthClient_cases:
  obtains (timeout) w' where
      "newOauthClient e ctx (Some ts) w = (Return (None, Some ErrWaitTimeout), w')"
      "steps (trace w') = steps (trace w) @ [Call ''newOauthClient'']"
  | (client) w' where
      "newOauthClient e ctx (Some ts) w = (Return (Some (NewClient ctx (Some ts)), None), w')"
      "steps (trace w') = steps (trace w) @ [Call ''newOauthClient'']"
proof -
  let ?v = "emit (Call ''newOauthClient'') w"
  obtain r v' where p: "PollImmediate 5 30 (fetchInitialToken e (Some ts)) ?v = (r, v')"
    by (cases "PollImmediate 5 30 (fetchInitialToken e (Some ts)) ?v")
  from PollImmediate_result [of 5 30 e ts ?v] p
  have r: "r = Return None \<or> r = Return (Some ErrWaitTimeout)"
    and s: "steps (trace v') = steps (trace w) @ [Call ''newOauthClient'']"
    by (simp_all add: steps_emit)
  from r show thesis
  proof
    assume "r = Return None"
    with p s show thesis
      by (intro client [of "emit Oauth2NewClient v'"])
         (simp_all add: newOauthClient_def steps_emit)
  next
    assume "r = Return (Some ErrWaitTimeout)"
    with p s show thesis
      by (intro timeout [of v']) (simp_all add: newOauthClient_def)
  qed
qed

lemma createCloudService_cases:
  obtains (failed) err w' ran where
      "createCloudService e ctx vendorVersion (Some ts) w = (Return (None, Some err), w')"
      "steps (trace w') = steps (trace w) @ ran" "prefix ran stableSteps"
  | (built) w' where
      "createCloudService e ctx vendorVersion (Some ts) w =
         (Return (Some (ComputeService (NewClient ctx (Some ts)) (userAgent e vendorVersion)),
                  None), w')"
      "steps (trace w') = steps (trace w) @ stableSteps"
proof -
  let ?v = "emit (Call ''createCloudServiceWithDefaultServiceAccount'')
              (emit (Call ''createCloudService'') w)"
  have v: "steps (trace ?v) = steps (trace w) @
             [Call ''createCloudService'', Call ''createCloudServiceWithDefaultServiceAccount'']"
    by (simp add: steps_emit)
  show thesis
  proof (cases rule: newOauthClient_cases [of e ctx ts ?v])
    case (timeout w')
    with v show thesis
      by (intro failed [of ErrWaitTimeout w' "butlast stableSteps"])
         (simp_all add: createCloudService_def createCloudServiceWithDefaultServiceAccount_def
                        stableSteps_def)
  next
    case (client w')
    show thesis
    proof (cases "computeNew e (NewClient ctx (Some ts))")
      case None
      with client v show thesis
        by (intro built [of "emit ComputeNew w'"])
           (simp_all add: createCloudService_def createCloudServiceWithDefaultServiceAccount_def
                          stableSteps_def steps_emit)
    next
      case (Some err)
      with client v show thesis
        by (intro failed [of err "emit ComputeNew w'" stableSteps])
           (simp_all add: createCloudService_def createCloudServiceWithDefaultServiceAccount_def
                          stableSteps_def steps_emit)
    qed
  qed
qed

lemma createAlphaCloudService_cases:
  obtains (failed) err w' ran where
      "createAlphaCloudService e ctx vendorVersion (Some ts) w = (Return (None, Some err), w')"
      "steps (trace w') = steps (trace w) @ ran" "prefix ran alphaSteps"
  | (built) w' where
      "createAlphaCloudService e ctx vendorVersion (Some ts) w =
         (Return (Some (AlphaService (NewClient ctx (Some ts)) (userAgent e vendorVersion)),
                  None), w')"
      "steps (trace w') = steps (trace w) @ alphaSteps"
proof -
  let ?v = "emit (Call ''createAlphaCloudService'') w"
  have v: "steps (trace ?v) = steps (trace w) @ [Call ''createAlphaCloudService'']"
    by (simp add: steps_emit)
  show thesis
  proof (cases rule: newOauthClient_cases [of e ctx ts ?v])
    case (timeout w')
    with v show thesis
      by (intro failed [of ErrWaitTimeout w' "butlast alphaSteps"])
         (simp_all add: createAlphaCloudService_def alphaSteps_def)
  next
    case (client w')
    show thesis
    proof (cases "alphaNew e (NewClient ctx (Some ts))")
      case None
      with client v show thesis
        by (intro built [of "emit AlphaNew w'"])
           (simp_all add: createAlphaCloudService_def alphaSteps_def steps_emit)
    next
      case (Some err)
      with client v show thesis
        by (intro failed [of err "emit AlphaNew w'" alphaSteps])
           (simp_all add: createAlphaCloudService_def alphaSteps_def steps_emit)
    qed
  qed
qed

text \<open>
  The outcomes of \<open>CreateCloudProvider\<close>: an error and no provider, after an initial
  segment of the steps, or a provider with every field set, after all of them.
\<close>

lemma CreateCloudProvider_cases:
  obtains (error) err w' ran where
      "CreateCloudProvider e ctx vendorVersion configPath w = (Return (None, Some err), w')"
      "steps (trace w') = steps (trace w) @ ran" "prefix ran constructionSteps"
  | (provider) ts p z w' where
      "CreateCloudProvider e ctx vendorVersion configPath w =
         (Return (Some \<lparr>service = Some (ComputeService (NewClient ctx (Some ts))
                                           (userAgent e vendorVersion)),
                         alphaService = Some (AlphaService (NewClient ctx (Some ts))
                                               (userAgent e vendorVersion)),
                         project = p, zone = z, zonesCache = Map.empty\<rparr>, None), w')"
      "steps (trace w') = steps (trace w) @ constructionSteps"
proof -
  let ?w0 = "emit (Call ''CreateCloudProvider'') w"
  obtain cfg cerr w1 where rc: "readConfig e configPath ?w0 = ((cfg, cerr), w1)"
    by (metis surj_pair)
  have s1: "steps (trace w1) = steps (trace w) @ [Call ''CreateCloudProvider'', Call ''readConfig'']"
    using readConfig_steps [of e configPath ?w0] rc by (simp add: steps_emit)
  show thesis
  proof (cases cerr)
    case (Some err)
    with rc s1 show thesis
      by (intro error [of err w1 "[Call ''CreateCloudProvider'', Call ''readConfig'']"])
         (simp_all add: CreateCloudProvider_def constructionSteps_def)
  next
    case None
    note cerr = this
    obtain tsrc terr w2 where gts: "generateTokenSource e ctx cfg w1 = ((tsrc, terr), w2)"
      by (metis surj_pair)
    have s2: "steps (trace w2) = steps (trace w) @
                [Call ''CreateCloudProvider'', Call ''readConfig'', Call ''generateTokenSource'']"
      using generateTokenSource_steps [of e ctx cfg w1] gts s1 by simp
    show thesis
    proof (cases terr)
      case (Some err)
      with rc cerr gts s2 show thesis
        by (intro error [of err w2 "[Call ''CreateCloudProvider'', Call ''readConfig'',
                                     Call ''generateTokenSource'']"])
           (simp_all add: CreateCloudProvider_def constructionSteps_def)
    next
      case None
      note terr = this
      from generateTokenSource_not_nil [of e ctx cfg w1 tsrc] gts terr
      obtain ts where ts: "tsrc = Some ts" by auto
      show thesis
      proof (cases rule: createCloudService_cases [of e ctx vendorVersion ts w2])
        case (failed err w3 ran)
        with rc cerr gts terr ts s2 show thesis
          by (intro error [of err w3 "[Call ''CreateCloudProvider'', Call ''readConfig'',
                                       Call ''generateTokenSource''] @ ran"])
             (simp_all add: CreateCloudProvider_def constructionSteps_def)
      next
        case (built w3)
        note stable = this
        show thesis
        proof (cases rule: createAlphaCloudService_cases [of e ctx vendorVersion ts w3])
          case (failed err w4 ran)
          with rc cerr gts terr ts s2 stable show thesis
            by (intro error [of err w4 "[Call ''CreateCloudProvider'', Call ''readConfig'',
                                         Call ''generateTokenSource''] @ stableSteps @ ran"])
               (simp_all add: CreateCloudProvider_def constructionSteps_def)
        next
          case (built w4)
          note alpha = this
          obtain p z perr w5 where pz: "getProjectAndZone e cfg w4 = ((p, z, perr), w5)"
            by (metis surj_pair)
          have s5: "steps (trace w5) = steps (trace w) @ constructionSteps"
            using getProjectAndZone_steps [of e cfg w4] pz alpha(2) stable(2) s2
            by (simp add: constructionSteps_def)
          show thesis
          proof (cases perr)
            case (Some err)
            with rc cerr gts terr ts stable alpha pz s5 show thesis
              by (intro error [of "Errorf ''Failed getting Project and Zone: '' err" w5
                                  constructionSteps])
                 (simp_all add: CreateCloudProvider_def)
          next
            case None
            with rc cerr gts terr ts stable alpha pz s5 show thesis
              by (intro provider [of ts p z w5]) (simp_all add: CreateCloudProvider_def)
          qed
        qed
      qed
    qed
  qed
qed

lemma cloud_generateTokenSource:
  "generateTokenSource cloudEnv background None v =
     ((Some metadataSource, None),
      v\<lparr>trace := trace v @
         [Call ''generateTokenSource'', GoogleDefaultTokenSource, MetadataProjectID,
          MetadataOnGCE, LookupEnv, MetadataOnGCE, GoogleComputeTokenSource]\<rparr>)"
  by (simp add: generateTokenSource_def definedTokenURL_def googleDefaultTokenSource_def
                cloudEnv_def metadataSource_def emit_def)

lemma cloud_newOauthClient:
  "newOauthClient cloudEnv background (Some metadataSource) v =
      (Return (Some (NewClient background (Some metadataSource)), None),
       v\<lparr>tokenCalls := Suc (tokenCalls v),
         trace := trace v @ [Call ''newOauthClient'', TokenCall (tokenCalls v) (now v),
                             Oauth2NewClient]\<rparr>)"
proof -
  have tok: "\<And>u. \<not> isl (tokenOf cloudEnv metadataSource (tokenCalls u))"
    by (simp add: cloudEnv_def)
  show ?thesis
    by (simp add: newOauthClient_def PollImmediate_token [OF tok] emit_def)
qed

lemma cloud_userAgent: "userAgent cloudEnv ''v1.0'' = ''GCE CSI Driver/v1.0 (linux amd64)''"
  by (simp add: userAgent_def cloudEnv_def)

lemma cloud_createCloudService:
  "createCloudService cloudEnv background ''v1.0'' (Some metadataSource) v =
      (Return (Some (ComputeService (NewClient background (Some metadataSource))
                       ''GCE CSI Driver/v1.0 (linux amd64)''), None),
       v\<lparr>tokenCalls := Suc (tokenCalls v),
         trace := trace v @ [Call ''createCloudService'',
           Call ''createCloudServiceWithDefaultServiceAccount'', Call ''newOauthClient'',
           TokenCall (tokenCalls v) (now v), Oauth2NewClient, ComputeNew]\<rparr>)"
proof -
  have cn: "computeNew cloudEnv (NewClient background (Some metadataSource)) = None"
    by (simp add: cloudEnv_def)
  show ?thesis
    by (simp add: createCloudService_def createCloudServiceWithDefaultServiceAccount_def
                  cloud_newOauthClient cn cloud_userAgent emit_def)
qed

lemma cloud_createAlphaCloudService:
  "createAlphaCloudService cloudEnv background ''v1.0'' (Some metadataSource) v =
      (Return (Some (AlphaService (NewClient background (Some metadataSource))
                       ''GCE CSI Driver/v1.0 (linux amd64)''), None),
       v\<lparr>tokenCalls := Suc (tokenCalls v),
         trace := trace v @ [Call ''createAlphaCloudService'', Call ''newOauthClient'',
           TokenCall (tokenCalls v) (now v), Oauth2NewClient, AlphaNew]\<rparr>)"
proof -
  have cn: "alphaNew cloudEnv (NewClient background (Some metadataSource)) = None"
    by (simp add: cloudEnv_def)
  show ?thesis
    by (simp add: createAlphaCloudService_def cloud_newOauthClient cn cloud_userAgent emit_def)
qed

lemma cloud_getProjectAndZone:
  "getProjectAndZone cloudEnv None v =
      ((''my-project'', ''us-central1-b'', None),
       v\<lparr>trace := trace v @ [Call ''getProjectAndZone'', MetadataZone, MetadataProjectID]\<rparr>)"
  by (simp add: getProjectAndZone_def configZone_def configProjectId_def cloudEnv_def emit_def)

lemma cloud_construction:
  "CreateCloudProvider cloudEnv background ''v1.0'' [] startWorld =
     (Return
        (Some \<lparr>service = Some (ComputeService (NewClient background (Some metadataSource))
                                  ''GCE CSI Driver/v1.0 (linux amd64)''),
               alphaService = Some (AlphaService (NewClient background (Some metadataSource))
                                      ''GCE CSI Driver/v1.0 (linux amd64)''),
               project = ''my-project'', zone = ''us-central1-b'', zonesCache = Map.empty\<rparr>,
         None),
      \<lparr>now = 0, tokenCalls = 2, openHandles = 0,
       trace =
         [Call ''CreateCloudProvider'', Call ''readConfig'', Call ''generateTokenSource'',
          GoogleDefaultTokenSource, MetadataProjectID, MetadataOnGCE, LookupEnv, MetadataOnGCE,
          GoogleComputeTokenSource, Call ''createCloudService'',
          Call ''createCloudServiceWithDefaultServiceAccount'', Call ''newOauthClient'',
          TokenCall 0 0, Oauth2NewClient, ComputeNew, Call ''createAlphaCloudService'',
          Call ''newOauthClient'', TokenCall 1 0, Oauth2NewClient, AlphaNew,
          Call ''getProjectAndZone'', MetadataZone, MetadataProjectID]\<rparr>)"
  by (simp add: CreateCloudProvider_def readConfig_empty cloud_generateTokenSource
                cloud_createCloudService cloud_createAlphaCloudService cloud_getProjectAndZone
                emit_def startWorld_def)

lemma constructionSteps_list:
  "constructionSteps =
     [Call ''CreateCloudProvider'', Call ''readConfig'', Call ''generateTokenSource'',
      Call ''createCloudService'', Call ''createCloudServiceWithDefaultServiceAccount'',
      Call ''newOauthClient'', ComputeNew,
      Call ''createAlphaCloudService'', Call ''newOauthClient'', AlphaNew,
      Call ''getProjectAndZone'']"
  by (simp add: constructionSteps_def stableSteps_def alphaSteps_def)

text \<open>
  C9, as the code has it. In every construction that returns a provider, the
  configuration is read once, the token source is generated once, \<open>compute.New\<close> and
  \<open>alpha.New\<close> are called once each and project and zone are resolved once, but the
  token warm-up of \<open>newOauthClient\<close> runs twice, once for each service client: the
  first time after the token source is generated and before the stable client is built,
  the second time after the stable client is built and before the preview client is
  built. In every construction, failing or not, the steps taken are an initial segment
  of that sequence.
\<close>

theorem CreateCloudProvider_steps:
  "(\<exists>ran. prefix ran constructionSteps
          \<and> steps (trace (snd (CreateCloudProvider e ctx vendorVersion configPath w)))
              = steps (trace w) @ ran)
   \<and> ((\<exists>p. fst (CreateCloudProvider e ctx vendorVersion configPath w) = Return (Some p, None))
        \<longrightarrow> steps (trace (snd (CreateCloudProvider e ctx vendorVersion configPath w)))
              = steps (trace w) @ constructionSteps)
   \<and> constructionSteps =
       [Call ''CreateCloudProvider'', Call ''readConfig'', Call ''generateTokenSource'',
        Call ''createCloudService'', Call ''createCloudServiceWithDefaultServiceAccount'',
        Call ''newOauthClient'', ComputeNew,
        Call ''createAlphaCloudService'', Call ''newOauthClient'', AlphaNew,
        Call ''getProjectAndZone'']
   \<and> count_list constructionSteps (Call ''newOauthClient'') = 2
   \<and> count_list constructionSteps (Call ''readConfig'') = 1
   \<and> count_list constructionSteps (Call ''generateTokenSource'') = 1
   \<and> count_list constructionSteps ComputeNew = 1
   \<and> count_list constructionSteps AlphaNew = 1
   \<and> count_list constructionSteps (Call ''getProjectAndZone'') = 1"
proof (intro conjI impI)
  show "\<exists>ran. prefix ran constructionSteps
          \<and> steps (trace (snd (CreateCloudProvider e ctx vendorVersion configPath w)))
              = steps (trace w) @ ran"
    by (cases rule: CreateCloudProvider_cases [of e ctx vendorVersion configPath w]) auto
next
  assume "\<exists>p. fst (CreateCloudProvider e ctx vendorVersion configPath w) = Return (Some p, None)"
  then show "steps (trace (snd (CreateCloudProvider e ctx vendorVersion configPath w)))
              = steps (trace w) @ constructionSteps"
    by (cases rule: CreateCloudProvider_cases [of e ctx vendorVersion configPath w]) auto
qed (simp_all add: constructionSteps_list)

theorem CreateCloudProvider_steps_witness:
  "steps (trace (snd (CreateCloudProvider cloudEnv background ''v1.0'' [] startWorld)))
     = [Call ''CreateCloudProvider'', Call ''readConfig'', Call ''generateTokenSource'',
        Call ''createCloudService'', Call ''createCloudServiceWithDefaultServiceAccount'',
        Call ''newOauthClient'', ComputeNew,
        Call ''createAlphaCloudService'', Call ''newOauthClient'', AlphaNew,
        Call ''getProjectAndZone'']"
proof -
  have p: "\<exists>p. fst (CreateCloudProvider cloudEnv background ''v1.0'' [] startWorld)
                 = Return (Some p, None)"
    by (simp add: cloud_construction)
  have t: "steps (trace startWorld) = []"
    by (simp add: startWorld_def steps_def)
  from CreateCloudProvider_steps
         [where e = cloudEnv and ctx = background and vendorVersion = "''v1.0''"
            and configPath = "[]" and w = startWorld] p t
  show ?thesis by simp
qed

theorem CreateCloudProvider_warmup_counterexample:
  "count_list (trace (snd (CreateCloudProvider cloudEnv background ''v1.0'' [] startWorld)))
     (Call ''newOauthClient'') = 2
   \<and> steps (trace (snd (CreateCloudProvider cloudEnv background ''v1.0'' [] startWorld)))
     = [Call ''CreateCloudProvider'', Call ''readConfig'', Call ''generateTokenSource'',
        Call ''createCloudService'', Call ''createCloudServiceWithDefaultServiceAccount'',
        Call ''newOauthClient'', ComputeNew,
        Call ''createAlphaCloudService'', Call ''newOauthClient'', AlphaNew,
        Call ''getProjectAndZone'']"
  by (simp add: cloud_construction steps_def)

section \<open>CreateCloudProvider: properties\<close>

lemma trace_steps_mem: "isStep ev \<Longrightarrow> ev \<in> set (trace v) \<longleftrightarrow> ev \<in> set (steps (trace v))"
  by (simp add: steps_def)

text \<open>A failed construction of the stable client leaves no step of the preview client.\<close>

lemma stable_failure_no_alpha:
  assumes rc: "readConfig e configPath (emit (Call ''CreateCloudProvider'') w) = ((cfg, None), w1)"
    and gts: "generateTokenSource e ctx cfg w1 = ((ts, None), w2)"
    and svc: "createCloudService e ctx vendorVersion ts w2 = (Return (s, Some err), w3)"
    and ev: "ev = AlphaNew \<or> ev = Call ''createAlphaCloudService''"
    and mem: "ev \<in> set (trace w3)"
  shows "ev \<in> set (trace w)"
proof -
  from generateTokenSource_not_nil [of e ctx cfg w1 ts] gts
  obtain src where ts: "ts = Some src" by auto
  have s1: "steps (trace w1) = steps (trace w) @ [Call ''CreateCloudProvider'', Call ''readConfig'']"
    using readConfig_steps [of e configPath "emit (Call ''CreateCloudProvider'') w"] rc
    by (simp add: steps_emit)
  have s2: "steps (trace w2) = steps (trace w1) @ [Call ''generateTokenSource'']"
    using generateTokenSource_steps [of e ctx cfg w1] gts by simp
  obtain ran where s3: "steps (trace w3) = steps (trace w2) @ ran" and p: "prefix ran stableSteps"
    using svc ts by (cases rule: createCloudService_cases [of e ctx vendorVersion src w2]) auto
  have st: "isStep ev" using ev by auto
  from p have "set ran \<subseteq> set stableSteps" by (rule set_mono_prefix)
  then have "ev \<notin> set ran" using ev by (auto simp: stableSteps_def)
  moreover from mem st have "ev \<in> set (steps (trace w3))" by (simp add: trace_steps_mem)
  ultimately have "ev \<in> set (steps (trace w))"
    using s1 s2 s3 ev by auto
  with st show ?thesis by (simp add: trace_steps_mem)
qed

text \<open>
  C5. \<open>CreateCloudProvider\<close> never panics and returns either an error and no provider
  or a provider and no error; a returned provider has both service clients set. It runs
  \<open>readConfig\<close>, \<open>generateTokenSource\<close>, \<open>createCloudService\<close> (warm-up and stable
  client), \<open>createAlphaCloudService\<close> (warm-up and preview client) and
  \<open>getProjectAndZone\<close> in this order, each in the state the previous one left, and
  returns at the first of them that fails with that error (the error of
  \<open>getProjectAndZone\<close> inside \<open>fmt.Errorf("Failed getting Project and Zone: %v", err)\<close>),
  in the state that step left. When the stable client fails, no step of the preview
  client has been taken. When all succeed the provider holds the two clients, the project
  and the zone they returned, and an empty zones cache.
\<close>

theorem CreateCloudProvider_sequence:
  "fst (CreateCloudProvider e ctx vendorVersion configPath w) \<noteq> Panic
   \<and> (fst (CreateCloudProvider e ctx vendorVersion configPath w) = Return (p, err)
        \<longrightarrow> (p = None \<longleftrightarrow> err \<noteq> None))
   \<and> (fst (CreateCloudProvider e ctx vendorVersion configPath w) = Return (Some q, err)
        \<longrightarrow> service q \<noteq> None \<and> alphaService q \<noteq> None)
   \<and> (readConfig e configPath (emit (Call ''CreateCloudProvider'') w) = ((cfg, Some err1), w1)
        \<longrightarrow> CreateCloudProvider e ctx vendorVersion configPath w = (Return (None, Some err1), w1))
   \<and> (readConfig e configPath (emit (Call ''CreateCloudProvider'') w) = ((cfg, None), w1) \<longrightarrow>
       (generateTokenSource e ctx cfg w1 = ((ts, Some err2), w2)
          \<longrightarrow> CreateCloudProvider e ctx vendorVersion configPath w = (Return (None, Some err2), w2))
     \<and> (generateTokenSource e ctx cfg w1 = ((ts, None), w2) \<longrightarrow>
         (createCloudService e ctx vendorVersion ts w2 = (Return (svc, Some err3), w3)
            \<longrightarrow> CreateCloudProvider e ctx vendorVersion configPath w = (Return (None, Some err3), w3)
              \<and> (AlphaNew \<in> set (trace w3) \<longrightarrow> AlphaNew \<in> set (trace w))
              \<and> (Call ''createAlphaCloudService'' \<in> set (trace w3)
                   \<longrightarrow> Call ''createAlphaCloudService'' \<in> set (trace w)))
       \<and> (createCloudService e ctx vendorVersion ts w2 = (Return (svc, None), w3) \<longrightarrow>
           (createAlphaCloudService e ctx vendorVersion ts w3 = (Return (asvc, Some err4), w4)
              \<longrightarrow> CreateCloudProvider e ctx vendorVersion configPath w
                    = (Return (None, Some err4), w4))
         \<and> (createAlphaCloudService e ctx vendorVersion ts w3 = (Return (asvc, None), w4) \<longrightarrow>
             (getProjectAndZone e cfg w4 = ((pid, zn, Some err5), w5)
                \<longrightarrow> CreateCloudProvider e ctx vendorVersion configPath w
                      = (Return (None, Some (Errorf ''Failed getting Project and Zone: '' err5)),
                         w5))
           \<and> (getProjectAndZone e cfg w4 = ((pid, zn, None), w5)
                \<longrightarrow> CreateCloudProvider e ctx vendorVersion configPath w
                      = (Return (Some \<lparr>service = svc, alphaService = asvc, project = pid,
                                        zone = zn, zonesCache = Map.empty\<rparr>, None),
                         w5))))))"
proof (intro conjI impI)
  show "fst (CreateCloudProvider e ctx vendorVersion configPath w) \<noteq> Panic"
    by (cases rule: CreateCloudProvider_cases [of e ctx vendorVersion configPath w]) auto
next
  assume "fst (CreateCloudProvider e ctx vendorVersion configPath w) = Return (p, err)"
  then show "p = None \<longleftrightarrow> err \<noteq> None"
    by (cases rule: CreateCloudProvider_cases [of e ctx vendorVersion configPath w]) auto
next
  assume "fst (CreateCloudProvider e ctx vendorVersion configPath w) = Return (Some q, err)"
  then show "service q \<noteq> None"
    by (cases rule: CreateCloudProvider_cases [of e ctx vendorVersion configPath w]) auto
next
  assume "fst (CreateCloudProvider e ctx vendorVersion configPath w) = Return (Some q, err)"
  then show "alphaService q \<noteq> None"
    by (cases rule: CreateCloudProvider_cases [of e ctx vendorVersion configPath w]) auto
next
  assume rc: "readConfig e configPath (emit (Call ''CreateCloudProvider'') w) = ((cfg, None), w1)"
    and gts: "generateTokenSource e ctx cfg w1 = ((ts, None), w2)"
    and svc: "createCloudService e ctx vendorVersion ts w2 = (Return (svc, Some err3), w3)"
  {
    assume "AlphaNew \<in> set (trace w3)"
    with rc gts svc show "AlphaNew \<in> set (trace w)"
      by (intro stable_failure_no_alpha [of e configPath w cfg w1 ctx ts w2 vendorVersion svc err3 w3])
         simp_all
  }
  {
    assume "Call ''createAlphaCloudService'' \<in> set (trace w3)"
    with rc gts svc show "Call ''createAlphaCloudService'' \<in> set (trace w)"
      by (intro stable_failure_no_alpha [of e configPath w cfg w1 ctx ts w2 vendorVersion svc err3 w3])
         simp_all
  }
qed (simp_all add: CreateCloudProvider_def)

theorem CreateCloudProvider_sequence_witness:
  "fst (CreateCloudProvider cloudEnv background ''v1.0'' [] startWorld) =
     Return
       (Some \<lparr>service = Some (ComputeService (NewClient background (Some metadataSource))
                                 ''GCE CSI Driver/v1.0 (linux amd64)''),
              alphaService = Some (AlphaService (NewClient background (Some metadataSource))
                                     ''GCE CSI Driver/v1.0 (linux amd64)''),
              project = ''my-project'', zone = ''us-central1-b'', zonesCache = Map.empty\<rparr>,
        None)
   \<and> fst (CreateCloudProvider cloudEnv background ''v1.0'' ''/missing'' startWorld) =
     Return (None, Some (Errorf ''couldn't open cloud provider configuration at /missing: ''
                           (OtherError ''no such file or directory'')))"
proof -
  let ?w0 = "emit (Call ''CreateCloudProvider'') startWorld"
  let ?w1 = "emit (Call ''readConfig'') ?w0"
  let ?w2 = "?w1\<lparr>trace := trace ?w1 @
         [Call ''generateTokenSource'', GoogleDefaultTokenSource, MetadataProjectID,
          MetadataOnGCE, LookupEnv, MetadataOnGCE, GoogleComputeTokenSource]\<rparr>"
  let ?w3 = "?w2\<lparr>tokenCalls := Suc (tokenCalls ?w2),
         trace := trace ?w2 @ [Call ''createCloudService'',
           Call ''createCloudServiceWithDefaultServiceAccount'', Call ''newOauthClient'',
           TokenCall (tokenCalls ?w2) (now ?w2), Oauth2NewClient, ComputeNew]\<rparr>"
  let ?w4 = "?w3\<lparr>tokenCalls := Suc (tokenCalls ?w3),
         trace := trace ?w3 @ [Call ''createAlphaCloudService'', Call ''newOauthClient'',
           TokenCall (tokenCalls ?w3) (now ?w3), Oauth2NewClient, AlphaNew]\<rparr>"
  let ?w5 = "?w4\<lparr>trace := trace ?w4 @
               [Call ''getProjectAndZone'', MetadataZone, MetadataProjectID]\<rparr>"
  let ?svc = "Some (ComputeService (NewClient background (Some metadataSource))
                      ''GCE CSI Driver/v1.0 (linux amd64)'')"
  let ?asvc = "Some (AlphaService (NewClient background (Some metadataSource))
                       ''GCE CSI Driver/v1.0 (linux amd64)'')"
  have rc: "readConfig cloudEnv [] ?w0 = ((None, None), ?w1)"
    by (rule readConfig_empty)
  have gts: "generateTokenSource cloudEnv background None ?w1 = ((Some metadataSource, None), ?w2)"
    by (rule cloud_generateTokenSource)
  have svc: "createCloudService cloudEnv background ''v1.0'' (Some metadataSource) ?w2
               = (Return (?svc, None), ?w3)"
    by (rule cloud_createCloudService)
  have asvc: "createAlphaCloudService cloudEnv background ''v1.0'' (Some metadataSource) ?w3
               = (Return (?asvc, None), ?w4)"
    by (rule cloud_createAlphaCloudService)
  have pz: "getProjectAndZone cloudEnv None ?w4
               = ((''my-project'', ''us-central1-b'', None), ?w5)"
    by (rule cloud_getProjectAndZone)
  have "CreateCloudProvider cloudEnv background ''v1.0'' [] startWorld =
          (Return (Some \<lparr>service = ?svc, alphaService = ?asvc, project = ''my-project'',
                          zone = ''us-central1-b'', zonesCache = Map.empty\<rparr>, None), ?w5)"
    using CreateCloudProvider_sequence
            [where e = cloudEnv and ctx = background and vendorVersion = "''v1.0''"
               and configPath = "[]" and w = startWorld and cfg = None and ?w1.0 = ?w1
               and ts = "Some metadataSource" and ?w2.0 = ?w2 and svc = ?svc and ?w3.0 = ?w3
               and asvc = ?asvc and ?w4.0 = ?w4 and pid = "''my-project''"
               and zn = "''us-central1-b''" and ?w5.0 = ?w5]
          rc gts svc asvc pz
    by blast
  then have ok: "fst (CreateCloudProvider cloudEnv background ''v1.0'' [] startWorld) =
          Return (Some \<lparr>service = ?svc, alphaService = ?asvc, project = ''my-project'',
                          zone = ''us-central1-b'', zonesCache = Map.empty\<rparr>, None)"
    by simp
  let ?err = "Errorf ''couldn't open cloud provider configuration at /missing: ''
                (OtherError ''no such file or directory'')"
  let ?v1 = "emit (OsOpen ''/missing'') ?w1"
  have "openFile cloudEnv ''/missing'' = Inl (OtherError ''no such file or directory'')"
    by (simp add: cloudEnv_def)
  then have rc': "readConfig cloudEnv ''/missing'' ?w0 = ((None, Some ?err), ?v1)"
    using readConfig_open_fails [of "''/missing''" cloudEnv _ ?w0] by simp
  have "CreateCloudProvider cloudEnv background ''v1.0'' ''/missing'' startWorld =
          (Return (None, Some ?err), ?v1)"
    using CreateCloudProvider_sequence
            [where e = cloudEnv and ctx = background and vendorVersion = "''v1.0''"
               and configPath = "''/missing''" and w = startWorld and cfg = None
               and ?err1.0 = ?err and ?w1.0 = ?v1]
          rc'
    by blast
  with ok show ?thesis by simp
qed

section \<open>The error of the default credentials\<close>

lemma definedTokenURL_None_iff:
  "definedTokenURL configFile = None \<longleftrightarrow>
     (configFile = None
      \<or> (\<exists>c. configFile = Some c \<and> (TokenURL (Global c) = [] \<or> TokenURL (Global c) = ''nil'')))"
  by (cases configFile) (auto simp: definedTokenURL_def)

text \<open>
  C10. Whenever \<open>generateTokenSource\<close> takes the default branch (the configuration is
  absent, or its \<open>tokenURL\<close> is empty or \<open>nil\<close>) and \<open>google.DefaultTokenSource\<close>
  returns an error, \<open>generateTokenSource\<close> returns that error, also when the
  environment variable is absent and the on-cloud probe is true, where it returns the
  metadata-backed token source together with the error. \<open>CreateCloudProvider\<close> then
  returns that error and no provider.
\<close>

theorem generateTokenSource_keeps_error:
  assumes "configFile = None
           \<or> (\<exists>c. configFile = Some c \<and> (TokenURL (Global c) = [] \<or> TokenURL (Global c) = ''nil''))"
    and "defaultCredentials e = Some err"
  shows "snd (fst (generateTokenSource e ctx configFile w)) = Some err
       \<and> (lookupGAC e = None \<and> onGCE e \<longrightarrow>
            fst (generateTokenSource e ctx configFile w)
              = (Some (ComputeTokenSource [] [CloudPlatformScope]), Some err))
       \<and> (fst (readConfig e configPath (emit (Call ''CreateCloudProvider'') v)) = (configFile, None)
            \<longrightarrow> fst (CreateCloudProvider e ctx vendorVersion configPath v)
                  = Return (None, Some err))"
proof -
  from assms(1) have d: "definedTokenURL configFile = None"
    by (simp add: definedTokenURL_None_iff)
  have g: "\<And>u. fst (generateTokenSource e ctx configFile u) =
       (if lookupGAC e = None \<and> onGCE e
        then (Some (ComputeTokenSource [] [CloudPlatformScope]), Some err)
        else (None, Some err))"
    using assms(2) by (simp add: default_branch_result [OF d] googleDefaultTokenSource_def)
  have c: "fst (CreateCloudProvider e ctx vendorVersion configPath v) = Return (None, Some err)"
    if rc: "fst (readConfig e configPath (emit (Call ''CreateCloudProvider'') v)) = (configFile, None)"
  proof -
    obtain w1 where r: "readConfig e configPath (emit (Call ''CreateCloudProvider'') v)
                          = ((configFile, None), w1)"
      using rc by (metis prod.collapse)
    obtain tsrc w2 where t: "generateTokenSource e ctx configFile w1 = ((tsrc, Some err), w2)"
      using g [of w1] by (metis (full_types) prod.collapse snd_conv)
    show ?thesis by (simp add: CreateCloudProvider_def r t)
  qed
  from g [of w] c show ?thesis by simp
qed

theorem generateTokenSource_keeps_error_witness:
  "fst (generateTokenSource (cloudEnv\<lparr>defaultCredentials := Some (OtherError ''no credentials'')\<rparr>)
          background None startWorld)
     = (Some (ComputeTokenSource [] [CloudPlatformScope]), Some (OtherError ''no credentials''))
   \<and> fst (CreateCloudProvider (cloudEnv\<lparr>defaultCredentials := Some (OtherError ''no credentials'')\<rparr>)
            background ''v1.0'' [] startWorld)
     = Return (None, Some (OtherError ''no credentials''))"
proof -
  let ?e = "cloudEnv\<lparr>defaultCredentials := Some (OtherError ''no credentials'')\<rparr>"
  have a: "(None :: ConfigFile option) = None
           \<or> (\<exists>c. None = Some c \<and> (TokenURL (Global c) = [] \<or> TokenURL (Global c) = ''nil''))"
    by simp
  have b: "defaultCredentials ?e = Some (OtherError ''no credentials'')"
    by simp
  have g: "lookupGAC ?e = None \<and> onGCE ?e"
    by (simp add: cloudEnv_def)
  have rc: "fst (readConfig ?e [] (emit (Call ''CreateCloudProvider'') startWorld)) = (None, None)"
    by (simp add: readConfig_empty)
  from generateTokenSource_keeps_error
         [OF a b, where ctx = background and w = startWorld and configPath = "[]"
            and v = startWorld and vendorVersion = "''v1.0''"] g rc
  show ?thesis by blast
qed

end
